theory Spec2Isabelle
  imports Complex_Main "HOL-Library.Word"
begin

section \<open>cameraInit\<close>

text \<open>
  A shallow embedding of \<^verbatim>\<open>src/software/pipeline/main_cameraInit.cpp\<close>.
  A C++ \<^verbatim>\<open>double\<close> is a value of the type \<open>double\<close> below: a real number, an
  infinity or not-a-number, with the arithmetic of IEEE 754 on them and no rounding.
  Functions of libraries and of headers that are not part of the sources are parameters
  (the record \<open>ext\<close> below) unless their behaviour is fixed by the C++ standard or its
  library and small enough to write out (\<^verbatim>\<open>std::stoi\<close>, \<^verbatim>\<open>std::to_string\<close>, the
  extraction of a \<^verbatim>\<open>double\<close> from a stream, path decomposition).
\<close>

section \<open>Floating-point values\<close>

text \<open>
  The values of a \<^verbatim>\<open>double\<close>: the finite ones are idealised as the real numbers (no
  rounding and no overflow), and the infinities and not-a-number are kept, with the
  results IEEE 754 gives for them. Zero has no sign here, and a division by zero gives
  what the positive zero gives: the zero divisors of \<^verbatim>\<open>main\<close> are an image height, a
  ratio of two image sizes, and a 35mm focal length read from the metadata.
\<close>

datatype double = Finite real | PInf | NInf | NaN

fun dadd :: "double \<Rightarrow> double \<Rightarrow> double" where
  "dadd (Finite a) (Finite b) = Finite (a + b)"
| "dadd NaN y = NaN"
| "dadd x NaN = NaN"
| "dadd PInf NInf = NaN"
| "dadd NInf PInf = NaN"
| "dadd PInf y = PInf"
| "dadd x PInf = PInf"
| "dadd NInf y = NInf"
| "dadd x NInf = NInf"

fun dmul :: "double \<Rightarrow> double \<Rightarrow> double" where
  "dmul (Finite a) (Finite b) = Finite (a * b)"
| "dmul NaN y = NaN"
| "dmul x NaN = NaN"
| "dmul (Finite a) PInf = (if a = 0 then NaN else if 0 < a then PInf else NInf)"
| "dmul (Finite a) NInf = (if a = 0 then NaN else if 0 < a then NInf else PInf)"
| "dmul PInf (Finite b) = (if b = 0 then NaN else if 0 < b then PInf else NInf)"
| "dmul NInf (Finite b) = (if b = 0 then NaN else if 0 < b then NInf else PInf)"
| "dmul PInf PInf = PInf"
| "dmul NInf NInf = PInf"
| "dmul PInf NInf = NInf"
| "dmul NInf PInf = NInf"

text \<open>
  A finite value divided by zero is an infinity of its sign, and not-a-number when it
  is zero itself; a finite value divided by an infinity is zero; an infinity divided by
  an infinity is not-a-number.
\<close>

fun ddiv :: "double \<Rightarrow> double \<Rightarrow> double" where
  "ddiv (Finite a) (Finite b) =
     (if b \<noteq> 0 then Finite (a / b) else if a = 0 then NaN else if 0 < a then PInf else NInf)"
| "ddiv NaN y = NaN"
| "ddiv x NaN = NaN"
| "ddiv (Finite a) PInf = Finite 0"
| "ddiv (Finite a) NInf = Finite 0"
| "ddiv PInf (Finite b) = (if 0 \<le> b then PInf else NInf)"
| "ddiv NInf (Finite b) = (if 0 \<le> b then NInf else PInf)"
| "ddiv PInf PInf = NaN"
| "ddiv PInf NInf = NaN"
| "ddiv NInf PInf = NaN"
| "ddiv NInf NInf = NaN"

text \<open>\<^verbatim>\<open>std::sqrt\<close>.\<close>

fun dsqrt :: "double \<Rightarrow> double" where
  "dsqrt (Finite a) = (if 0 \<le> a then Finite (sqrt a) else NaN)"
| "dsqrt PInf = PInf"
| "dsqrt NInf = NaN"
| "dsqrt NaN = NaN"

text \<open>The comparisons \<^verbatim>\<open><\<close> and \<^verbatim>\<open><=\<close>: false whenever an operand is not-a-number.\<close>

fun dless :: "double \<Rightarrow> double \<Rightarrow> bool" where
  "dless (Finite a) (Finite b) = (a < b)"
| "dless NaN y = False"
| "dless x NaN = False"
| "dless PInf y = False"
| "dless x NInf = False"
| "dless (Finite a) PInf = True"
| "dless NInf (Finite b) = True"
| "dless NInf PInf = True"

fun dle :: "double \<Rightarrow> double \<Rightarrow> bool" where
  "dle (Finite a) (Finite b) = (a \<le> b)"
| "dle NaN y = False"
| "dle x NaN = False"
| "dle x PInf = True"
| "dle NInf y = True"
| "dle (Finite a) NInf = False"
| "dle PInf (Finite b) = False"
| "dle PInf NInf = False"

text \<open>
  The operators of the program on \<open>double\<close>. Equality with a finite constant, as in
  \<^verbatim>\<open>sensorWidth == -1.0\<close>, is equality of values; \<^verbatim>\<open>std::pow(x, 2)\<close> is \<open>x * x\<close>.
\<close>

instantiation double :: "{plus, times, inverse, ord}"
begin

definition plus_double :: "double \<Rightarrow> double \<Rightarrow> double" where
  "plus_double = dadd"

definition times_double :: "double \<Rightarrow> double \<Rightarrow> double" where
  "times_double = dmul"

definition divide_double :: "double \<Rightarrow> double \<Rightarrow> double" where
  "divide_double = ddiv"

definition inverse_double :: "double \<Rightarrow> double" where
  "inverse_double = ddiv (Finite 1)"

definition less_double :: "double \<Rightarrow> double \<Rightarrow> bool" where
  "less_double = dless"

definition less_eq_double :: "double \<Rightarrow> double \<Rightarrow> bool" where
  "less_eq_double = dle"

instance ..

end

section \<open>The data of the scene\<close>

text \<open>
  \<^verbatim>\<open>IndexT\<close> and \<^verbatim>\<open>UndefinedIndexT\<close> are declared in \<^verbatim>\<open>aliceVision/types.hpp\<close>,
  which is not among the sources: a 32-bit unsigned integer and its largest value.
\<close>

type_synonym IndexT = "32 word"

definition UndefinedIndexT :: IndexT where
  "UndefinedIndexT = - 1"

text \<open>
  \<^verbatim>\<open>camera::EINTRINSIC\<close> is declared outside the sources: \<^verbatim>\<open>PINHOLE_CAMERA_START\<close>
  is the value \<^verbatim>\<open>main\<close> starts from, the others are the models its help text lists
  (pinhole, radial1, radial3, brown, fisheye4, fisheye1). \<^verbatim>\<open>main\<close> only passes the
  value on.
\<close>

datatype EINTRINSIC =
    PINHOLE_CAMERA_START
  | PINHOLE_CAMERA
  | PINHOLE_CAMERA_RADIAL1
  | PINHOLE_CAMERA_RADIAL3
  | PINHOLE_CAMERA_BROWN
  | PINHOLE_CAMERA_FISHEYE
  | PINHOLE_CAMERA_FISHEYE1

datatype EIntrinsicInitMode =
    SET_FROM_DEFAULT_FOV
  | COMPUTED_FROM_METADATA
  | ESTIMATED_FROM_METADATA

text \<open>\<^verbatim>\<open>sensorDB::Datasheet\<close>: the fields \<^verbatim>\<open>_brand\<close>, \<^verbatim>\<open>_model\<close>, \<^verbatim>\<open>_sensorSize\<close>.\<close>

record Datasheet =
  d_brand :: string
  d_model :: string
  d_sensorSize :: double

text \<open>
  \<^verbatim>\<open>sfmData::View\<close>, reduced to what \<^verbatim>\<open>main\<close> reads and writes through its getters
  and setters. \<open>metadataFocalLength\<close> is what \<^verbatim>\<open>getMetadataFocalLength()\<close> returns;
  \<open>focalLengthIn35mmFilm\<close> is \<open>None\<close> when
  \<^verbatim>\<open>hasDigitMetadata("Exif:FocalLengthIn35mmFilm")\<close> is false and otherwise the value
  \<^verbatim>\<open>std::stod\<close> reads from that entry.
\<close>

record View =
  imagePath :: string
  width :: nat
  height :: nat
  metadataMake :: string
  metadataModel :: string
  metadataFocalLength :: double
  focalLengthIn35mmFilm :: "double option"
  intrinsicId :: IndexT
  rigId :: IndexT
  subPoseId :: IndexT
  frameId :: IndexT

text \<open>
  An intrinsic as \<^verbatim>\<open>main\<close> sees it through \<^verbatim>\<open>camera::IntrinsicBase*\<close>: \<open>isPinhole\<close>
  says whether \<^verbatim>\<open>dynamic_cast<camera::Pinhole*>\<close> gives a non-null pointer.
\<close>

record Intrinsic =
  cameraModel :: EINTRINSIC
  isPinhole :: bool
  focalLengthPix :: double
  initializationMode :: EIntrinsicInitMode
  serialNumber :: string

text \<open>\<^verbatim>\<open>sfmData::Rig(nbSubPose)\<close>.\<close>

datatype Rig = Rig nat

text \<open>The command-line options of \<^verbatim>\<open>main\<close> that the pass reads.\<close>

record Options =
  defaultIntrinsicKMatrix :: string
  defaultFocalLengthPixel :: double
  defaultFieldOfView :: double
  defaultCameraModel :: EINTRINSIC
  groupCameraModel :: int
  allowIncompleteOutput :: bool
  allowSingleView :: bool

text \<open>
  The state that the iterations of the per-view loop share, and that the sequential
  steps after the loop read. \<^verbatim>\<open>std::map\<close>s whose iteration order decides nothing are
  partial functions; \<open>detectedRigs\<close> is kept in key order, as \<^verbatim>\<open>std::map\<close> iterates
  it. \<open>rigWarnings\<close> lists the image paths for which the "Invalid rig structure" warning
  is logged, and \<open>randCalls\<close> counts the calls of \<^verbatim>\<open>std::rand\<close> made so far.
\<close>

record Shared =
  noMetadataImagePaths :: "string list"
  intrinsicsSetFromFocal35mm :: "string \<rightharpoonup> double \<times> double"
  unknownSensors :: "string \<times> string \<rightharpoonup> string"
  unsureSensors :: "string \<times> string \<rightharpoonup> string \<times> Datasheet"
  detectedRigs :: "(IndexT \<times> (int \<times> nat) list) list"
  completeViewCount :: nat
  intrinsics :: "IndexT \<rightharpoonup> Intrinsic"
  rigWarnings :: "string list"
  randCalls :: nat

text \<open>
  What \<^verbatim>\<open>main\<close> calls and the sources do not hold:
  \<^item> \<open>getInfo\<close>: \<^verbatim>\<open>sensorDB::getInfo\<close>, \<open>None\<close> when it returns false;
  \<^item> \<open>getViewIntrinsic\<close>: \<^verbatim>\<open>sfmDataIO::getViewIntrinsic\<close>;
  \<^item> \<open>hashValue\<close>: \<^verbatim>\<open>IntrinsicBase::hashValue\<close>, as assigned to an \<^verbatim>\<open>IndexT\<close>;
  \<^item> \<open>hashString\<close>: \<^verbatim>\<open>std::hash<std::string>\<close>, a \<^verbatim>\<open>size_t\<close>;
  \<^item> \<open>rand\<close>: the result of the n-th call of \<^verbatim>\<open>std::rand\<close> after the seeding;
  \<^item> \<open>Save\<close>: \<^verbatim>\<open>sfmDataIO::Save\<close>, true when the file was written.
\<close>

record ext =
  getInfo :: "string \<Rightarrow> string \<Rightarrow> Datasheet list \<Rightarrow> Datasheet option"
  getViewIntrinsic ::
    "View \<Rightarrow> double \<Rightarrow> double \<Rightarrow> double \<Rightarrow> double \<Rightarrow> EINTRINSIC \<Rightarrow> double \<Rightarrow> double
      \<Rightarrow> Intrinsic"
  hashValue :: "Intrinsic \<Rightarrow> IndexT"
  hashString :: "string \<Rightarrow> 64 word"
  rand :: "nat \<Rightarrow> nat"
  Save :: "View list \<Rightarrow> (IndexT \<rightharpoonup> Intrinsic) \<Rightarrow> (IndexT \<rightharpoonup> Rig) \<Rightarrow> bool"

text \<open>Every way the run ends with \<^verbatim>\<open>EXIT_FAILURE\<close> or leaves defined behaviour.\<close>

datatype error =
    CannotCombineIntrinsicAndFocalLengthPix
  | CannotCombineIntrinsicAndFieldOfView
  | CannotCombineFocalLengthPixAndFieldOfView
  | InvalidKMatrix
  | NoViews
  | NullPointerDereference
  | WrongSubPoseId
  | WrongNbPoses
  | UnknownSensor
  | NotEnoughCompleteViews
  | SaveFailed

text \<open>\<^verbatim>\<open>std::map::emplace\<close>: an existing key keeps its value.\<close>

definition emplace :: "('k \<rightharpoonup> 'v) \<Rightarrow> 'k \<Rightarrow> 'v \<Rightarrow> ('k \<rightharpoonup> 'v)" where
  "emplace m k v = (case m k of None \<Rightarrow> m(k \<mapsto> v) | Some _ \<Rightarrow> m)"

section \<open>Library functions written out\<close>

text \<open>
  \<^verbatim>\<open>boost::filesystem::path\<close> on POSIX paths (separator \<^verbatim>\<open>/\<close>, no network root name):
  \<^verbatim>\<open>filename()\<close> is what follows the last separator (\<^verbatim>\<open>.\<close> for a path that ends with
  one), \<^verbatim>\<open>parent_path()\<close> is what precedes it without its trailing separators (the
  root directory stays), and \<^verbatim>\<open>stem()\<close> is the filename up to its last dot.
\<close>

definition separator :: char where
  "separator = CHR ''/''"

definition filename :: "string \<Rightarrow> string" where
  "filename p =
     (let f = rev (takeWhile (\<lambda>c. c \<noteq> separator) (rev p)) in
      if f = [] \<and> p \<noteq> [] then (if list_all (\<lambda>c. c = separator) p then [separator] else ''.'')
      else f)"

definition parent_path :: "string \<Rightarrow> string" where
  "parent_path p =
     (let d = dropWhile (\<lambda>c. c \<noteq> separator) (rev p) in
      if d = [] then []
      else (let d' = dropWhile (\<lambda>c. c = separator) d in
            if d' = [] then (if takeWhile (\<lambda>c. c \<noteq> separator) (rev p) = [] then [] else [separator])
            else rev d'))"

definition stem :: "string \<Rightarrow> string" where
  "stem p =
     (let name = filename p in
      if name = ''.'' \<or> name = ''..'' then name
      else if CHR ''.'' \<in> set name
        then rev (tl (dropWhile (\<lambda>c. c \<noteq> CHR ''.'') (rev name)))
      else name)"

text \<open>
  \<^verbatim>\<open>std::stoi(str)\<close>, base 10, as the standard defines it through \<^verbatim>\<open>strtol\<close>: leading
  white space is skipped, one sign is accepted, then the longest run of digits is read
  and what follows it is ignored. No digit at all throws \<^verbatim>\<open>std::invalid_argument\<close>; a
  value outside \<^verbatim>\<open>int\<close> throws \<^verbatim>\<open>std::out_of_range\<close>.
\<close>

datatype stoi_error = invalid_argument | out_of_range

definition isspace :: "char \<Rightarrow> bool" where
  "isspace c = (c = CHR '' '' \<or> (9 \<le> (of_char c :: nat) \<and> (of_char c :: nat) \<le> 13))"

definition isdigit :: "char \<Rightarrow> bool" where
  "isdigit c = (48 \<le> (of_char c :: nat) \<and> (of_char c :: nat) \<le> 57)"

definition digitsValue :: "string \<Rightarrow> nat" where
  "digitsValue ds = foldl (\<lambda>a c. 10 * a + (of_char c - 48)) 0 ds"

definition stoi :: "string \<Rightarrow> stoi_error + int" where
  "stoi str =
     (let s = dropWhile isspace str;
          negative = (s \<noteq> [] \<and> hd s = CHR ''-'');
          signed = (s \<noteq> [] \<and> (hd s = CHR ''-'' \<or> hd s = CHR ''+''));
          ds = takeWhile isdigit (if signed then tl s else s);
          v = (if negative then - int (digitsValue ds) else int (digitsValue ds))
      in if ds = [] then Inl invalid_argument
         else if v < - (2 ^ 31) \<or> 2 ^ 31 \<le> v then Inl out_of_range
         else Inr v)"

text \<open>
  \<^verbatim>\<open>ss >> readvalue\<close> for a \<^verbatim>\<open>double\<close>, on a fresh stream that holds the field, as the
  GNU C++ library performs it in the classic locale: leading white space is skipped,
  one sign is accepted, then digits, a decimal point and digits are read, and after
  them an exponent (\<^verbatim>\<open>e\<close> or \<^verbatim>\<open>E\<close>, a sign, digits). Reading stops at the first
  character that does not continue the number, and what follows stays unread. The
  extraction fails when there is no digit before the exponent, when an exponent letter
  has no exponent digits, and when the value rounds to an infinity (it is at least
  \<open>2\<^sup>1\<^sup>0\<^sup>2\<^sup>4 - 2\<^sup>9\<^sup>7\<^sup>0\<close>). The result is the value and the unread rest of the field.
  Other implementations of the C++ library also take the letters of hexadecimal
  numbers, of \<^verbatim>\<open>inf\<close> and of \<^verbatim>\<open>nan\<close> into the number, and fail on a field such as
  \<^verbatim>\<open>1x\<close> that this one reads as 1.
\<close>

definition extractDouble :: "string \<Rightarrow> (real \<times> string) option" where
  "extractDouble str =
     (let s = dropWhile isspace str;
          negative = (s \<noteq> [] \<and> hd s = CHR ''-'');
          signed = (s \<noteq> [] \<and> (hd s = CHR ''-'' \<or> hd s = CHR ''+''));
          s1 = (if signed then tl s else s);
          intDigits = takeWhile isdigit s1;
          s2 = dropWhile isdigit s1;
          point = (s2 \<noteq> [] \<and> hd s2 = CHR ''.'');
          fracDigits = (if point then takeWhile isdigit (tl s2) else []);
          s3 = (if point then dropWhile isdigit (tl s2) else s2);
          mantissa = real (digitsValue intDigits)
                     + real (digitsValue fracDigits) / 10 ^ length fracDigits;
          sci = (s3 \<noteq> [] \<and> (hd s3 = CHR ''e'' \<or> hd s3 = CHR ''E''));
          s4 = (if sci then tl s3 else s3);
          expNegative = (sci \<and> s4 \<noteq> [] \<and> hd s4 = CHR ''-'');
          expSigned = (sci \<and> s4 \<noteq> [] \<and> (hd s4 = CHR ''-'' \<or> hd s4 = CHR ''+''));
          s5 = (if expSigned then tl s4 else s4);
          expDigits = takeWhile isdigit s5;
          scaled = (if expNegative then mantissa / 10 ^ digitsValue expDigits
                    else mantissa * 10 ^ digitsValue expDigits);
          unsigned = (if sci then scaled else mantissa)
      in if intDigits = [] \<and> fracDigits = [] then None
         else if sci \<and> expDigits = [] then None
         else if 2 ^ 1024 - 2 ^ 970 \<le> unsigned then None
         else Some (if negative then - unsigned else unsigned,
                    if sci then dropWhile isdigit s5 else s3))"

text \<open>The value that the extraction stores in \<^verbatim>\<open>readvalue\<close>; \<open>None\<close> when it fails.\<close>

definition readDouble :: "string \<Rightarrow> double option" where
  "readDouble f = map_option (\<lambda>(v, rest). Finite v) (extractDouble f)"

text \<open>\<^verbatim>\<open>std::to_string\<close> of an unsigned value: its decimal digits.\<close>

definition digitChar :: "nat \<Rightarrow> char" where
  "digitChar d = ''0123456789'' ! d"

function to_string :: "nat \<Rightarrow> string" where
  "to_string n = (if n < 10 then [digitChar n] else to_string (n div 10) @ [digitChar (n mod 10)])"
  by pat_completeness auto
termination
  by (relation "measure id") auto

section \<open>The option checks before the pass\<close>

text \<open>
  \<^verbatim>\<open>boost::split(vec_str, Kmatrix, boost::is_any_of(";"))\<close> without token compression:
  one field more than there are separators, empty fields included.
\<close>

fun split :: "char \<Rightarrow> string \<Rightarrow> string list" where
  "split sep [] = [[]]"
| "split sep (c # cs) =
     (if c = sep then [] # split sep cs
      else (case split sep cs of [] \<Rightarrow> [[c]] | f # fs \<Rightarrow> (c # f) # fs))"

text \<open>
  The loop of \<^verbatim>\<open>checkIntrinsicStringValidity\<close> from index \<open>i\<close> on. The triple is
  \<open>(focal, ppx, ppy)\<close>, the three reference parameters; \<open>None\<close> is \<^verbatim>\<open>return false\<close>.
\<close>

fun readKMatrix ::
  "string list \<Rightarrow> nat \<Rightarrow> double \<times> double \<times> double \<Rightarrow> (double \<times> double \<times> double) option" where
  "readKMatrix [] i out = Some out"
| "readKMatrix (f # fs) i (focal, ppx, ppy) =
     (case readDouble f of
        None \<Rightarrow> None
      | Some readvalue \<Rightarrow>
          readKMatrix fs (i + 1)
            (if i = 0 then readvalue else focal,
             if i = 2 then readvalue else ppx,
             if i = 5 then readvalue else ppy))"

definition checkIntrinsicStringValidity ::
  "string \<Rightarrow> double \<times> double \<times> double \<Rightarrow> (double \<times> double \<times> double) option" where
  "checkIntrinsicStringValidity Kmatrix out =
     (let vec_str = split (CHR '';'') Kmatrix in
      if length vec_str \<noteq> 9 then None else readKMatrix vec_str 0 out)"

text \<open>
  Lines 272 to 299 of \<^verbatim>\<open>main\<close>: the result is
  \<open>(defaultFocalLengthPixel, defaultPPx, defaultPPy)\<close> as the pass will read them.
\<close>

definition checkIntrinsicOptions :: "Options \<Rightarrow> error + double \<times> double \<times> double" where
  "checkIntrinsicOptions opts =
     (if defaultIntrinsicKMatrix opts \<noteq> [] \<and> defaultFocalLengthPixel opts > Finite 0
        then Inl CannotCombineIntrinsicAndFocalLengthPix
      else if defaultIntrinsicKMatrix opts \<noteq> [] \<and> defaultFieldOfView opts > Finite 0
        then Inl CannotCombineIntrinsicAndFieldOfView
      else if defaultFocalLengthPixel opts > Finite 0 \<and> defaultFieldOfView opts > Finite 0
        then Inl CannotCombineFocalLengthPixAndFieldOfView
      else if defaultIntrinsicKMatrix opts = []
        then Inr (defaultFocalLengthPixel opts, Finite (- 1), Finite (- 1))
      else (case checkIntrinsicStringValidity (defaultIntrinsicKMatrix opts)
                   (defaultFocalLengthPixel opts, Finite (- 1), Finite (- 1)) of
              None \<Rightarrow> Inl InvalidKMatrix
            | Some out \<Rightarrow> Inr out))"

section \<open>The per-view pass\<close>

text \<open>
  Incrementing \<^verbatim>\<open>detectedRigs[rigId][subPoseId]\<close>: \<^verbatim>\<open>operator[]\<close> inserts a missing key
  with value 0 at its place in the key order.
\<close>

fun incrSubPose :: "int \<Rightarrow> (int \<times> nat) list \<Rightarrow> (int \<times> nat) list" where
  "incrSubPose k [] = [(k, 1)]"
| "incrSubPose k ((k', n) # xs) =
     (if k = k' then (k', n + 1) # xs
      else if k < k' then (k, 1) # (k', n) # xs
      else (k', n) # incrSubPose k xs)"

fun incrRig ::
  "IndexT \<Rightarrow> int \<Rightarrow> (IndexT \<times> (int \<times> nat) list) list \<Rightarrow> (IndexT \<times> (int \<times> nat) list) list" where
  "incrRig r k [] = [(r, [(k, 1)])]"
| "incrRig r k ((r', sps) # xs) =
     (if r = r' then (r', incrSubPose k sps) # xs
      else if r < r' then (r, [(k, 1)]) # (r', sps) # xs
      else (r', sps) # incrRig r k xs)"

text \<open>
  Lines 371 to 390. Both \<^verbatim>\<open>std::stoi\<close> calls come before the first write, so an
  exception leaves the view as it was; the handler only logs the warning.
  \<^verbatim>\<open>setRigAndSubPoseId\<close> and \<^verbatim>\<open>setFrameId\<close> take \<^verbatim>\<open>IndexT\<close> arguments, and the key of
  the inner map is the \<^verbatim>\<open>int\<close> read back from \<^verbatim>\<open>getSubPoseId()\<close>.
\<close>

definition detectRig :: "(string \<Rightarrow> 64 word) \<Rightarrow> View \<Rightarrow> Shared \<Rightarrow> View \<times> Shared" where
  "detectRig hash view s =
     (let parentPath = parent_path (imagePath view) in
      if stem (parent_path parentPath) = ''rig'' then
        (case stoi (stem (imagePath view)) of
           Inl e \<Rightarrow> (view, s\<lparr>rigWarnings := rigWarnings s @ [imagePath view]\<rparr>)
         | Inr frameId' \<Rightarrow>
             (case stoi (stem parentPath) of
                Inl e \<Rightarrow> (view, s\<lparr>rigWarnings := rigWarnings s @ [imagePath view]\<rparr>)
              | Inr subPoseId' \<Rightarrow>
                  (let view' = view\<lparr>rigId := ucast (hash (parent_path parentPath)),
                                     subPoseId := word_of_int subPoseId',
                                     frameId := word_of_int frameId'\<rparr>
                   in (view', s\<lparr>detectedRigs :=
                          incrRig (rigId view') (sint (subPoseId view')) (detectedRigs s)\<rparr>))))
      else (view, s))"

text \<open>The local variables of one iteration that the resolution steps update.\<close>

record Resolution =
  sensorWidth :: double
  focalLength :: double
  intrinsicInitMode :: EIntrinsicInitMode

definition hasCameraMetadata :: "View \<Rightarrow> bool" where
  "hasCameraMetadata view = (metadataMake view \<noteq> [] \<or> metadataModel view \<noteq> [])"

text \<open>
  Line 400: the two sizes are converted to \<^verbatim>\<open>double\<close> and divided; an image of
  height 0 gives an infinity, or not-a-number when the width is 0 too. Line 401 is the
  diagonal of the 24 x 36 frame.
\<close>

definition imageRatio :: "View \<Rightarrow> double" where
  "imageRatio view = Finite (real (width view)) / Finite (real (height view))"

definition diag24x36 :: double where
  "diag24x36 = dsqrt (Finite 36 * Finite 36 + Finite 24 * Finite 24)"

text \<open>Lines 426 to 445: the sensor database.\<close>

definition lookupSensorWidth ::
  "(string \<Rightarrow> string \<Rightarrow> Datasheet list \<Rightarrow> Datasheet option) \<Rightarrow> Datasheet list \<Rightarrow> View
    \<Rightarrow> Resolution \<Rightarrow> Shared \<Rightarrow> Resolution \<times> Shared" where
  "lookupSensorWidth gi sensorDatabase view r s =
     (if hasCameraMetadata view then
        (case gi (metadataMake view) (metadataModel view) sensorDatabase of
           None \<Rightarrow> (r, s)
         | Some datasheet \<Rightarrow>
             (r\<lparr>sensorWidth := d_sensorSize datasheet,
                intrinsicInitMode :=
                  (if focalLength r > Finite 0 then COMPUTED_FROM_METADATA
                   else intrinsicInitMode r)\<rparr>,
              if d_model datasheet \<noteq> metadataModel view
              then s\<lparr>unsureSensors :=
                       emplace (unsureSensors s) (metadataMake view, metadataModel view)
                         (imagePath view, datasheet)\<rparr>
              else s))
      else (r, s))"

text \<open>Lines 448 to 474: the 'FocalLengthIn35mmFilm' metadata.\<close>

definition estimateFromFocal35mm :: "View \<Rightarrow> Resolution \<Rightarrow> Shared \<Rightarrow> Resolution \<times> Shared" where
  "estimateFromFocal35mm view r s =
     (case focalLengthIn35mmFilm view of
        None \<Rightarrow> (r, s)
      | Some focalIn35mm \<Rightarrow>
          (let r' =
             (if sensorWidth r = Finite (- 1) then
                (let invRatio = Finite 1 / imageRatio view in
                 if focalLength r > Finite 0 then
                   (let sensorDiag = (focalLength r * diag24x36) / focalIn35mm in
                    r\<lparr>sensorWidth :=
                        sensorDiag * dsqrt (Finite 1 / (Finite 1 + invRatio * invRatio))\<rparr>)
                 else
                   (let sw = diag24x36 * dsqrt (Finite 1 / (Finite 1 + invRatio * invRatio)) in
                    r\<lparr>sensorWidth := sw, focalLength := sw * focalIn35mm / Finite 36\<rparr>))
              else if sensorWidth r > Finite 0 \<and> focalLength r \<le> Finite 0 then
                (let sensorDiag =
                       dsqrt (sensorWidth r * sensorWidth r
                              + (sensorWidth r / imageRatio view)
                                * (sensorWidth r / imageRatio view)) in
                 r\<lparr>focalLength := (sensorDiag * focalIn35mm) / diag24x36\<rparr>)
              else r)
           in (r'\<lparr>intrinsicInitMode := ESTIMATED_FROM_METADATA\<rparr>,
               s\<lparr>intrinsicsSetFromFocal35mm :=
                    emplace (intrinsicsSetFromFocal35mm s) (imagePath view)
                      (sensorWidth r', focalLength r')\<rparr>)))"

text \<open>
  Lines 477 to 489, the diagnostics of a sensor width that is still \<open>-1\<close>. (The exit of
  the iteration under \<^verbatim>\<open>allowIncompleteOutput\<close> is in \<open>processView\<close>.)
\<close>

definition recordMissingSensor :: "View \<Rightarrow> Shared \<Rightarrow> Shared" where
  "recordMissingSensor view s =
     (if hasCameraMetadata view
      then s\<lparr>unknownSensors :=
               emplace (unknownSensors s) (metadataMake view, metadataModel view) (imagePath view)\<rparr>
      else s\<lparr>noMetadataImagePaths := noMetadataImagePaths s @ [imagePath view]\<rparr>)"

text \<open>
  \<^verbatim>\<open>View::isPartOfRig\<close> is declared outside the sources: a view is part of a rig when
  its rig identity is defined.
\<close>

definition isPartOfRig :: "View \<Rightarrow> bool" where
  "isPartOfRig view = (rigId view \<noteq> UndefinedIndexT)"

text \<open>Lines 514 to 529: the serial number of a view without make and model.\<close>

definition overrideSerialNumber :: "Options \<Rightarrow> View \<Rightarrow> Intrinsic \<Rightarrow> Intrinsic" where
  "overrideSerialNumber opts view intrinsic =
     (if \<not> hasCameraMetadata view then
        (let i1 = (if groupCameraModel opts = 2
                   then intrinsic\<lparr>serialNumber := parent_path (imagePath view)\<rparr>
                   else intrinsic)
         in if isPartOfRig view
            then i1\<lparr>serialNumber :=
                      ''no_metadata_rig_'' @ to_string (unat (rigId view)) @ ''_''
                        @ to_string (unat (subPoseId view))\<rparr>
            else i1)
      else intrinsic)"

text \<open>
  Lines 500 to 544. \<^verbatim>\<open>setInitializationMode\<close> is called through the result of the
  \<^verbatim>\<open>dynamic_cast\<close> before that pointer is tested: on an intrinsic that is not a pinhole
  the call dereferences a null pointer.
\<close>

definition buildIntrinsic ::
  "ext \<Rightarrow> Options \<Rightarrow> double \<times> double \<times> double \<Rightarrow> View \<Rightarrow> Resolution \<Rightarrow> Shared
    \<Rightarrow> error + View \<times> Shared" where
  "buildIntrinsic e opts defaults view r s =
     (let (defaultFocalLengthPixel', defaultPPx, defaultPPy) = defaults;
          intrinsicBase = getViewIntrinsic e view (focalLength r) (sensorWidth r)
                            defaultFocalLengthPixel' (defaultFieldOfView opts)
                            (defaultCameraModel opts) defaultPPx defaultPPy
      in if \<not> isPinhole intrinsicBase then Inl NullPointerDereference
         else
           (let intrinsic0 = intrinsicBase\<lparr>initializationMode := intrinsicInitMode r\<rparr>;
                s1 = (if focalLengthPix intrinsic0 > Finite 0
                      then s\<lparr>completeViewCount := completeViewCount s + 1\<rparr> else s);
                intrinsic = overrideSerialNumber opts view intrinsic0;
                id1 = (if intrinsicId view = UndefinedIndexT
                       then hashValue e intrinsic else intrinsicId view);
                id2 = (if groupCameraModel opts = 0
                       then of_nat (rand e (randCalls s1)) else id1);
                s2 = (if groupCameraModel opts = 0
                      then s1\<lparr>randCalls := randCalls s1 + 1\<rparr> else s1)
            in Inr (view\<lparr>intrinsicId := id2\<rparr>,
                    s2\<lparr>intrinsics := emplace (intrinsics s2) id2 intrinsic\<rparr>)))"

text \<open>
  Lines 404 to 421: a view whose intrinsic is already a pinhole with a positive focal
  length. \<^verbatim>\<open>getIntrinsicPtr\<close> is declared outside the sources; an identity without a
  record is taken as the null pointer, which the \<^verbatim>\<open>dynamic_cast\<close> passes on.
\<close>

definition alreadyInitialized :: "View \<Rightarrow> Shared \<Rightarrow> bool" where
  "alreadyInitialized view s =
     (intrinsicId view \<noteq> UndefinedIndexT \<and>
      (case intrinsics s (intrinsicId view) of
         None \<Rightarrow> False
       | Some intrinsic \<Rightarrow> isPinhole intrinsic \<and> focalLengthPix intrinsic > Finite 0))"

text \<open>
  Lines 423 to 474: the block that resolves the sensor width, from the locals as
  lines 393 to 402 initialise them.
\<close>

definition resolveSensorWidth :: "ext \<Rightarrow> Datasheet list \<Rightarrow> View \<Rightarrow> Shared \<Rightarrow> Resolution \<times> Shared" where
  "resolveSensorWidth e sensorDatabase view s =
     (let r0 = \<lparr>sensorWidth = Finite (- 1), focalLength = metadataFocalLength view,
                intrinsicInitMode = SET_FROM_DEFAULT_FOV\<rparr>;
          (r1, s1) = lookupSensorWidth (getInfo e) sensorDatabase view r0 s
      in estimateFromFocal35mm view r1 s1)"

text \<open>One iteration of the loop at lines 366 to 545.\<close>

definition processView ::
  "ext \<Rightarrow> Options \<Rightarrow> double \<times> double \<times> double \<Rightarrow> Datasheet list \<Rightarrow> View \<Rightarrow> Shared
    \<Rightarrow> error + View \<times> Shared" where
  "processView e opts defaults sensorDatabase view0 s0 =
     (let (view, s) = detectRig (hashString e) view0 s0
      in if alreadyInitialized view s
         then Inr (view, s\<lparr>completeViewCount := completeViewCount s + 1\<rparr>)
         else
           (let (r2, s2) = resolveSensorWidth e sensorDatabase view s;
                s3 = (if sensorWidth r2 = Finite (- 1) then recordMissingSensor view s2 else s2)
            in if sensorWidth r2 = Finite (- 1) \<and> allowIncompleteOutput opts
               then Inr (view\<lparr>intrinsicId := UndefinedIndexT\<rparr>, s3)
               else buildIntrinsic e opts defaults view r2 s3))"

text \<open>
  Whether the iteration for a view gets as far as line 500: the view is not already
  initialised, and it does not leave at line 495.
\<close>

definition reachesBuild :: "ext \<Rightarrow> Options \<Rightarrow> Datasheet list \<Rightarrow> View \<Rightarrow> Shared \<Rightarrow> bool" where
  "reachesBuild e opts sensorDatabase view0 s0 =
     (let (view, s) = detectRig (hashString e) view0 s0
      in \<not> alreadyInitialized view s
         \<and> \<not> (sensorWidth (fst (resolveSensorWidth e sensorDatabase view s)) = Finite (- 1)
              \<and> allowIncompleteOutput opts))"

text \<open>
  The whole loop, on the views in the order in which their iterations run. The
  iterations are distributed over threads; any order is a possible one.
\<close>

fun processViews ::
  "ext \<Rightarrow> Options \<Rightarrow> double \<times> double \<times> double \<Rightarrow> Datasheet list \<Rightarrow> View list \<Rightarrow> Shared
    \<Rightarrow> error + View list \<times> Shared" where
  "processViews e opts defaults sensorDatabase [] s = Inr ([], s)"
| "processViews e opts defaults sensorDatabase (view # views) s =
     (case processView e opts defaults sensorDatabase view s of
        Inl err \<Rightarrow> Inl err
      | Inr (view', s') \<Rightarrow>
          (case processViews e opts defaults sensorDatabase views s' of
             Inl err \<Rightarrow> Inl err
           | Inr (views', s'') \<Rightarrow> Inr (view' # views', s'')))"

section \<open>After the pass\<close>

text \<open>
  The test \<^verbatim>\<open>nbPosePerSubPoseId.first >= nbSubPose\<close> compares an \<^verbatim>\<open>int\<close> with a
  \<^verbatim>\<open>std::size_t\<close>: the \<^verbatim>\<open>int\<close> is converted to the unsigned 64-bit type first.
\<close>

definition toSizeT :: "int \<Rightarrow> int" where
  "toSizeT k = k mod 2 ^ 64"

text \<open>Lines 556 to 571: the loop over the sub-poses of one rig.\<close>

fun checkSubPoses :: "nat \<Rightarrow> nat \<Rightarrow> (int \<times> nat) list \<Rightarrow> error option" where
  "checkSubPoses nbSubPose nbPoses [] = None"
| "checkSubPoses nbSubPose nbPoses ((subPoseId', nbPose) # xs) =
     (if toSizeT subPoseId' \<ge> int nbSubPose \<or> subPoseId' < 0 then Some WrongSubPoseId
      else if nbPose \<noteq> nbPoses then Some WrongNbPoses
      else checkSubPoses nbSubPose nbPoses xs)"

text \<open>
  Lines 552 to 571 for one rig. \<open>nbPoses\<close> is the count of the first entry in key
  order; the pass never leaves a rig without sub-poses, and without one the loop body,
  which alone reads \<open>nbPoses\<close>, does not run.
\<close>

definition checkRig :: "(int \<times> nat) list \<Rightarrow> error option" where
  "checkRig subPoses =
     (case subPoses of
        [] \<Rightarrow> None
      | (firstId, nbPoses) # rest \<Rightarrow> checkSubPoses (length subPoses) nbPoses subPoses)"

text \<open>Lines 548 to 575: the first rig that fails the check ends the run.\<close>

fun createRigs ::
  "(IndexT \<times> (int \<times> nat) list) list \<Rightarrow> (IndexT \<rightharpoonup> Rig) \<Rightarrow> error + (IndexT \<rightharpoonup> Rig)" where
  "createRigs [] rigs = Inr rigs"
| "createRigs ((rigId', subPoses) # rest) rigs =
     (case checkRig subPoses of
        Some err \<Rightarrow> Inl err
      | None \<Rightarrow> createRigs rest (emplace rigs rigId' (Rig (length subPoses))))"

text \<open>
  Lines 600 to 642: the decision after the reports. The result on success is what was
  handed to \<^verbatim>\<open>sfmDataIO::Save\<close>.
\<close>

definition requiredViewsMissing :: "Options \<Rightarrow> nat \<Rightarrow> bool" where
  "requiredViewsMissing opts count =
     (\<not> allowIncompleteOutput opts \<and> (count < 1 \<or> (count < 2 \<and> \<not> allowSingleView opts)))"

definition finish ::
  "ext \<Rightarrow> Options \<Rightarrow> View list \<Rightarrow> Shared \<Rightarrow> (IndexT \<rightharpoonup> Rig)
    \<Rightarrow> error + View list \<times> (IndexT \<rightharpoonup> Intrinsic) \<times> (IndexT \<rightharpoonup> Rig)" where
  "finish e opts views s rigs =
     (if dom (unknownSensors s) \<noteq> {} \<and> \<not> allowIncompleteOutput opts then Inl UnknownSensor
      else if requiredViewsMissing opts (completeViewCount s) then Inl NotEnoughCompleteViews
      else if \<not> Save e views (intrinsics s) rigs then Inl SaveFailed
      else Inr (views, intrinsics s, rigs))"

text \<open>
  The shared state at line 363; \<open>intrinsics0\<close> are the intrinsics read with the views.
\<close>

definition initialShared :: "(IndexT \<rightharpoonup> Intrinsic) \<Rightarrow> Shared" where
  "initialShared intrinsics0 =
     \<lparr>noMetadataImagePaths = [], intrinsicsSetFromFocal35mm = Map.empty,
      unknownSensors = Map.empty, unsureSensors = Map.empty, detectedRigs = [],
      completeViewCount = 0, intrinsics = intrinsics0, rigWarnings = [], randCalls = 0\<rparr>"

text \<open>
  \<^verbatim>\<open>main\<close> from line 272 on, given the sensor database and the scene (views, intrinsics
  and rigs) as loaded. \<open>Inl\<close> is \<^verbatim>\<open>EXIT_FAILURE\<close>, or undefined behaviour for
  \<open>NullPointerDereference\<close>; \<open>Inr\<close> is \<^verbatim>\<open>EXIT_SUCCESS\<close> with what was saved.
\<close>

definition cameraInit ::
  "ext \<Rightarrow> Options \<Rightarrow> Datasheet list \<Rightarrow> View list \<Rightarrow> (IndexT \<rightharpoonup> Intrinsic) \<Rightarrow> (IndexT \<rightharpoonup> Rig)
    \<Rightarrow> error + View list \<times> (IndexT \<rightharpoonup> Intrinsic) \<times> (IndexT \<rightharpoonup> Rig)" where
  "cameraInit e opts sensorDatabase views intrinsics0 rigs0 =
     (case checkIntrinsicOptions opts of
        Inl err \<Rightarrow> Inl err
      | Inr defaults \<Rightarrow>
          if views = [] then Inl NoViews
          else
            (case processViews e opts defaults sensorDatabase views (initialShared intrinsics0) of
               Inl err \<Rightarrow> Inl err
             | Inr (views', s) \<Rightarrow>
                 (case createRigs (detectedRigs s) rigs0 of
                    Inl err \<Rightarrow> Inl err
                  | Inr rigs \<Rightarrow> finish e opts views' s rigs)))"

section \<open>Reading the shared state\<close>

text \<open>The value of \<^verbatim>\<open>detectedRigs[r][k]\<close>, 0 when there is no such entry.\<close>

definition rigCount :: "(IndexT \<times> (int \<times> nat) list) list \<Rightarrow> IndexT \<Rightarrow> int \<Rightarrow> nat" where
  "rigCount rigs r k =
     (case map_of rigs r of
        None \<Rightarrow> 0
      | Some sps \<Rightarrow> (case map_of sps k of None \<Rightarrow> 0 | Some n \<Rightarrow> n))"

text \<open>
  The identities that a pass gave to the views, and the image that it stored with an
  unsure sensor.
\<close>

definition assignedIds :: "error + View list \<times> Shared \<Rightarrow> IndexT list" where
  "assignedIds result = (case result of Inl err \<Rightarrow> [] | Inr (views, s) \<Rightarrow> map intrinsicId views)"

definition firstUnsureImage :: "error + View list \<times> Shared \<Rightarrow> string \<times> string \<Rightarrow> string option" where
  "firstUnsureImage result key =
     (case result of
        Inl err \<Rightarrow> None
      | Inr (views, s) \<Rightarrow> map_option fst (unsureSensors s key))"

section \<open>What the pass keeps true of the rig table\<close>

text \<open>
  The inner maps of \<open>detectedRigs\<close> are never empty, their keys are in strictly
  increasing order and are values of an \<^verbatim>\<open>int\<close>; the rig identities are in strictly
  increasing order too.
\<close>

definition subPosesInv :: "(int \<times> nat) list \<Rightarrow> bool" where
  "subPosesInv sps =
     (sps \<noteq> [] \<and> sorted_wrt (<) (map fst sps)
      \<and> list_all (\<lambda>k. - (2 ^ 31) \<le> k \<and> k < 2 ^ 31) (map fst sps))"

definition detectedRigsInv :: "(IndexT \<times> (int \<times> nat) list) list \<Rightarrow> bool" where
  "detectedRigsInv rigs =
     (sorted_wrt (<) (map fst rigs) \<and> list_all subPosesInv (map snd rigs))"

section \<open>A numeric field as the specification words it\<close>

text \<open>
  A field of the K matrix string is a number when it is, from its first character to
  its last, the decimal notation of one: the extraction reads all of it.
\<close>

definition numericField :: "string \<Rightarrow> bool" where
  "numericField f = (case extractDouble f of None \<Rightarrow> False | Some (v, rest) \<Rightarrow> rest = [])"

section \<open>The rig convention as the specification words it\<close>

text \<open>
  The specification's reading of the path convention \<^verbatim>\<open>.../rig/<subPoseId>/<frameId>.<ext>\<close>:
  the directory above the image's directory is named \<^verbatim>\<open>rig\<close>, and the name of the
  image's directory and the stem of the file are digits only. It is compared with
  \<open>detectRig\<close> below.
\<close>

definition purelyNumeric :: "string \<Rightarrow> bool" where
  "purelyNumeric str = (str \<noteq> [] \<and> list_all isdigit str)"

definition rigConvention :: "string \<Rightarrow> bool" where
  "rigConvention p =
     (filename (parent_path (parent_path p)) = ''rig''
      \<and> purelyNumeric (filename (parent_path p))
      \<and> purelyNumeric (stem p))"

section \<open>Concrete inputs\<close>

text \<open>
  An environment, options and inputs on which the definitions above are evaluated. The
  sensor lookup matches on the brand alone, the intrinsic builder computes the focal length in pixels as
  \<open>focalLength * width / sensorWidth\<close> unless a default is given, the hashes are
  lengths, the generator returns 7 at every call and saving succeeds. The views are
  images without metadata (\<open>exampleView\<close>) and images of a Canon camera with focal
  length 50 and 35mm value 50 (\<open>exampleCanonView\<close>); the database holds one datasheet.
\<close>

definition exampleExt :: ext where
  "exampleExt =
     \<lparr>getInfo = (\<lambda>make model db. find (\<lambda>d. d_brand d = make) db),
      getViewIntrinsic = (\<lambda>view focalLength sensorWidth focalPix fov model ppx ppy.
         \<lparr>cameraModel = model, isPinhole = True,
          focalLengthPix = (if focalPix > Finite 0 then focalPix
                            else focalLength * Finite (real (width view)) / sensorWidth),
          initializationMode = SET_FROM_DEFAULT_FOV, serialNumber = []\<rparr>),
      hashValue = (\<lambda>i. of_nat (length (serialNumber i))),
      hashString = (\<lambda>p. of_nat (length p)),
      rand = (\<lambda>n. 7),
      Save = (\<lambda>views intrinsics rigs. True)\<rparr>"

definition exampleOptions :: Options where
  "exampleOptions =
     \<lparr>defaultIntrinsicKMatrix = [], defaultFocalLengthPixel = Finite (- 1),
      defaultFieldOfView = Finite (- 1),
      defaultCameraModel = PINHOLE_CAMERA_START, groupCameraModel = 2,
      allowIncompleteOutput = False, allowSingleView = False\<rparr>"

definition exampleView :: "string \<Rightarrow> View" where
  "exampleView path =
     \<lparr>imagePath = path, width = 6000, height = 4000, metadataMake = [], metadataModel = [],
      metadataFocalLength = Finite (- 1), focalLengthIn35mmFilm = None,
      intrinsicId = UndefinedIndexT,
      rigId = UndefinedIndexT, subPoseId = UndefinedIndexT, frameId = UndefinedIndexT\<rparr>"

definition exampleRigViews :: "View list" where
  "exampleRigViews = [exampleView ''/data/rig/0/1.jpg'', exampleView ''/data/rig/1/1.jpg'']"

definition exampleRigState :: Shared where
  "exampleRigState =
     (initialShared Map.empty)
       \<lparr>noMetadataImagePaths := [''/data/rig/0/1.jpg'', ''/data/rig/1/1.jpg''],
        detectedRigs := [(9, [(0, 1), (1, 1)])]\<rparr>"

definition exampleDatabase :: "Datasheet list" where
  "exampleDatabase = [\<lparr>d_brand = ''Canon'', d_model = ''EOS 5D'', d_sensorSize = Finite 36\<rparr>]"

definition exampleCanonView :: "string \<Rightarrow> string \<Rightarrow> View" where
  "exampleCanonView path model =
     \<lparr>imagePath = path, width = 5760, height = 3840, metadataMake = ''Canon'',
      metadataModel = model, metadataFocalLength = Finite 50,
      focalLengthIn35mmFilm = Some (Finite 50),
      intrinsicId = UndefinedIndexT, rigId = UndefinedIndexT, subPoseId = UndefinedIndexT,
      frameId = UndefinedIndexT\<rparr>"

definition exampleCanonIntrinsic :: Intrinsic where
  "exampleCanonIntrinsic =
     \<lparr>cameraModel = PINHOLE_CAMERA_START, isPinhole = True, focalLengthPix = Finite 8000,
      initializationMode = ESTIMATED_FROM_METADATA, serialNumber = []\<rparr>"

definition exampleCanonPair :: "View list" where
  "exampleCanonPair =
     [exampleCanonView ''/data/a.jpg'' ''EOS 5D'', exampleCanonView ''/data/b.jpg'' ''EOS 5D'']"

definition exampleCanonState :: Shared where
  "exampleCanonState =
     (initialShared Map.empty)
       \<lparr>intrinsicsSetFromFocal35mm :=
          [''/data/a.jpg'' \<mapsto> (Finite 36, Finite 50), ''/data/b.jpg'' \<mapsto> (Finite 36, Finite 50)],
        completeViewCount := 2,
        intrinsics := [0 \<mapsto> exampleCanonIntrinsic]\<rparr>"


section \<open>Arithmetic on finite values\<close>

lemma Finite_plus [simp]: "Finite a + Finite b = Finite (a + b)"
  by (simp add: plus_double_def)

lemma Finite_times [simp]: "Finite a * Finite b = Finite (a * b)"
  by (simp add: times_double_def)

lemma Finite_divide [simp]: "b \<noteq> 0 \<Longrightarrow> Finite a / Finite b = Finite (a / b)"
  by (simp add: divide_double_def)

lemma Finite_divide_zero:
  "Finite a / Finite 0 = (if a = 0 then NaN else if 0 < a then PInf else NInf)"
  by (simp add: divide_double_def)

lemma Finite_less [simp]: "Finite a < Finite b \<longleftrightarrow> a < b"
  by (simp add: less_double_def)

lemma Finite_le [simp]: "Finite a \<le> Finite b \<longleftrightarrow> a \<le> b"
  by (simp add: less_eq_double_def)

lemma positive_cases: "Finite 0 < x \<longleftrightarrow> x = PInf \<or> (\<exists>a. x = Finite a \<and> 0 < a)"
  by (cases x) (simp_all add: less_double_def)

lemma not_positive_cases:
  "x \<le> Finite 0 \<longleftrightarrow> x = NInf \<or> (\<exists>a. x = Finite a \<and> a \<le> 0)"
  by (cases x) (simp_all add: less_eq_double_def)

lemma inverse_square_Finite:
  assumes "x \<noteq> 0"
  shows "dsqrt (Finite 1 / (Finite 1 + (Finite 1 / Finite x) * (Finite 1 / Finite x)))
           = Finite (sqrt (1 / (1 + (1 / x)\<^sup>2)))"
proof -
  have inv: "Finite 1 / Finite x = Finite (1 / x)"
    using assms by (rule Finite_divide)
  have pos: "0 < 1 + (1 / x) * (1 / x)"
    using zero_le_square [of "1 / x"] by linarith
  then have nz: "1 + (1 / x) * (1 / x) \<noteq> 0"
    by simp
  have quot: "Finite 1 / Finite (1 + (1 / x) * (1 / x)) = Finite (1 / (1 + (1 / x) * (1 / x)))"
    using nz by (rule Finite_divide)
  have nonneg: "0 \<le> 1 / (1 + (1 / x) * (1 / x))"
    using pos by simp
  have "dsqrt (Finite 1 / (Finite 1 + (Finite 1 / Finite x) * (Finite 1 / Finite x)))
          = dsqrt (Finite (1 / (1 + (1 / x) * (1 / x))))"
    by (simp only: inv Finite_times Finite_plus quot)
  also have "\<dots> = Finite (sqrt (1 / (1 + (1 / x) * (1 / x))))"
    using nonneg by (simp only: dsqrt.simps if_True)
  finally show ?thesis
    by (simp only: power2_eq_square)
qed

lemma sum_squares_Finite:
  assumes "x \<noteq> 0"
  shows "dsqrt (Finite a * Finite a + (Finite a / Finite x) * (Finite a / Finite x))
           = Finite (sqrt (a\<^sup>2 + (a / x)\<^sup>2))"
proof -
  have quot: "Finite a / Finite x = Finite (a / x)"
    using assms by (rule Finite_divide)
  have nonneg: "0 \<le> a * a + (a / x) * (a / x)"
    using zero_le_square [of a] zero_le_square [of "a / x"] by linarith
  have "dsqrt (Finite a * Finite a + (Finite a / Finite x) * (Finite a / Finite x))
          = dsqrt (Finite (a * a + (a / x) * (a / x)))"
    by (simp only: quot Finite_times Finite_plus)
  also have "\<dots> = Finite (sqrt (a * a + (a / x) * (a / x)))"
    using nonneg by (simp only: dsqrt.simps if_True)
  finally show ?thesis
    by (simp only: power2_eq_square)
qed

lemma diag24x36_Finite: "dsqrt (Finite 36 * Finite 36 + Finite 24 * Finite 24) = Finite (sqrt (36\<^sup>2 + 24\<^sup>2))"
  by simp


section \<open>Evaluating the pass on the concrete inputs\<close>

lemmas path_eval = parent_path_def stem_def filename_def separator_def
lemmas stoi_eval = stoi_def isspace_def isdigit_def digitsValue_def

lemma exampleView_simps:
  "imagePath (exampleView p) = p"
  "width (exampleView p) = 6000"
  "height (exampleView p) = 4000"
  "metadataMake (exampleView p) = []"
  "metadataModel (exampleView p) = []"
  "metadataFocalLength (exampleView p) = Finite (- 1)"
  "focalLengthIn35mmFilm (exampleView p) = None"
  "intrinsicId (exampleView p) = UndefinedIndexT"
  "rigId (exampleView p) = UndefinedIndexT"
  by (simp_all add: exampleView_def)

lemma detectRig_example0:
  "detectRig (hashString exampleExt) (exampleView ''/data/rig/0/1.jpg'') s =
     ((exampleView ''/data/rig/0/1.jpg'')\<lparr>rigId := 9, subPoseId := 0, frameId := 1\<rparr>,
      s\<lparr>detectedRigs := incrRig 9 0 (detectedRigs s)\<rparr>)"
  by (simp add: detectRig_def path_eval stoi_eval exampleView_simps exampleExt_def)

lemma detectRig_example1:
  "detectRig (hashString exampleExt) (exampleView ''/data/rig/1/1.jpg'') s =
     ((exampleView ''/data/rig/1/1.jpg'')\<lparr>rigId := 9, subPoseId := 1, frameId := 1\<rparr>,
      s\<lparr>detectedRigs := incrRig 9 1 (detectedRigs s)\<rparr>)"
  by (simp add: detectRig_def path_eval stoi_eval exampleView_simps exampleExt_def)

lemmas pass_eval = processView_def alreadyInitialized_def resolveSensorWidth_def
  lookupSensorWidth_def estimateFromFocal35mm_def recordMissingSensor_def hasCameraMetadata_def

lemma processView_example0:
  "allowIncompleteOutput opts \<Longrightarrow>
   processView exampleExt opts defaults [] (exampleView ''/data/rig/0/1.jpg'') s
   = Inr ((exampleView ''/data/rig/0/1.jpg'')
            \<lparr>rigId := 9, subPoseId := 0, frameId := 1, intrinsicId := UndefinedIndexT\<rparr>,
          s\<lparr>detectedRigs := incrRig 9 0 (detectedRigs s),
            noMetadataImagePaths := noMetadataImagePaths s @ [''/data/rig/0/1.jpg'']\<rparr>)"
  by (simp add: pass_eval detectRig_example0 exampleView_simps)

lemma processView_example1:
  "allowIncompleteOutput opts \<Longrightarrow>
   processView exampleExt opts defaults [] (exampleView ''/data/rig/1/1.jpg'') s
   = Inr ((exampleView ''/data/rig/1/1.jpg'')
            \<lparr>rigId := 9, subPoseId := 1, frameId := 1, intrinsicId := UndefinedIndexT\<rparr>,
          s\<lparr>detectedRigs := incrRig 9 1 (detectedRigs s),
            noMetadataImagePaths := noMetadataImagePaths s @ [''/data/rig/1/1.jpg'']\<rparr>)"
  by (simp add: pass_eval detectRig_example1 exampleView_simps)

lemma processViews_exampleRig:
  "allowIncompleteOutput opts \<Longrightarrow>
   processViews exampleExt opts defaults [] exampleRigViews (initialShared Map.empty)
   = Inr ([(exampleView ''/data/rig/0/1.jpg'')
             \<lparr>rigId := 9, subPoseId := 0, frameId := 1, intrinsicId := UndefinedIndexT\<rparr>,
           (exampleView ''/data/rig/1/1.jpg'')
             \<lparr>rigId := 9, subPoseId := 1, frameId := 1, intrinsicId := UndefinedIndexT\<rparr>],
          exampleRigState)"
  by (simp add: exampleRigViews_def processView_example0 processView_example1
      initialShared_def exampleRigState_def)

lemma createRigs_exampleRig:
  "createRigs (detectedRigs exampleRigState) rigs0 = Inr (emplace rigs0 9 (Rig 2))"
  by (simp add: exampleRigState_def checkRig_def toSizeT_def numeral_2_eq_2)

lemma cameraInit_exampleRig:
  assumes "checkIntrinsicOptions opts = Inr defaults"
    and "allowIncompleteOutput opts"
  shows "cameraInit exampleExt opts [] exampleRigViews Map.empty rigs0
         = Inr ([(exampleView ''/data/rig/0/1.jpg'')
                   \<lparr>rigId := 9, subPoseId := 0, frameId := 1, intrinsicId := UndefinedIndexT\<rparr>,
                 (exampleView ''/data/rig/1/1.jpg'')
                   \<lparr>rigId := 9, subPoseId := 1, frameId := 1, intrinsicId := UndefinedIndexT\<rparr>],
                Map.empty, emplace rigs0 9 (Rig 2))"
proof -
  have views: "exampleRigViews \<noteq> []"
    by (simp add: exampleRigViews_def)
  have state: "unknownSensors exampleRigState = Map.empty" "intrinsics exampleRigState = Map.empty"
    by (simp_all add: exampleRigState_def initialShared_def)
  have saved: "Save exampleExt views intrinsics rigs" for views intrinsics rigs
    by (simp add: exampleExt_def)
  show ?thesis
    using assms views
    by (simp add: cameraInit_def processViews_exampleRig createRigs_exampleRig finish_def
          requiredViewsMissing_def state saved del: processViews.simps)
qed

section \<open>The option checks\<close>







lemmas extract_eval =
  extractDouble_def readDouble_def numericField_def isspace_def isdigit_def digitsValue_def Let_def

lemma split_example:
  "split (CHR '';'') ''800mm;0;320;0;800;240;0;0;1''
     = [''800mm'', ''0'', ''320'', ''0'', ''800'', ''240'', ''0'', ''0'', ''1'']"
  by simp



lemma read_more_examples:
  "extractDouble '' -1.5e2;'' = Some (- 150, '';'')"
  "extractDouble ''.5'' = Some (1 / 2, [])"
  "extractDouble ''1e'' = None"
  "extractDouble ''e5'' = None"
  "extractDouble ''x1'' = None"
  "extractDouble [] = None"
  "extractDouble ''1e400'' = None"
  "extractDouble ''25e-1'' = Some (5 / 2, [])"
  by (simp_all add: extract_eval)




section \<open>Rig validation\<close>

lemma checkSubPoses_None:
  "checkSubPoses n p sps = None \<longleftrightarrow>
     (\<forall>(k, c) \<in> set sps. 0 \<le> k \<and> toSizeT k < int n \<and> c = p)"
  by (induction sps) (auto split: if_splits)

lemma checkSubPoses_Some:
  "checkSubPoses n p sps = Some err \<Longrightarrow> err = WrongSubPoseId \<or> err = WrongNbPoses"
  by (induction sps) (auto split: if_splits)

lemma toSizeT_id: "0 \<le> k \<Longrightarrow> k < 2 ^ 31 \<Longrightarrow> toSizeT k = k"
  by (simp add: toSizeT_def)

lemma pigeonhole_indices:
  fixes ks :: "int list"
  assumes "distinct ks"
  shows "(\<forall>k \<in> set ks. 0 \<le> k \<and> k < int (length ks)) \<longleftrightarrow> set ks = {0..<int (length ks)}"
proof
  assume a: "\<forall>k \<in> set ks. 0 \<le> k \<and> k < int (length ks)"
  then have sub: "set ks \<subseteq> {0..<int (length ks)}" by auto
  have "card (set ks) = card {0..<int (length ks)}"
    using assms by (simp add: distinct_card)
  with sub show "set ks = {0..<int (length ks)}"
    by (intro card_subset_eq) auto
next
  assume "set ks = {0..<int (length ks)}"
  then show "\<forall>k \<in> set ks. 0 \<le> k \<and> k < int (length ks)" by auto
qed

lemma checkRig_iff:
  assumes "subPosesInv sps"
  shows "checkRig sps = None \<longleftrightarrow>
           set (map fst sps) = {0..<int (length sps)} \<and> (\<forall>(k, n) \<in> set sps. n = snd (hd sps))"
proof -
  from assms obtain k0 n0 rest where sps: "sps = (k0, n0) # rest"
    by (cases sps) (auto simp: subPosesInv_def)
  have dist: "distinct (map fst sps)"
    using assms by (simp add: subPosesInv_def strict_sorted_iff)
  have range: "\<forall>k \<in> set (map fst sps). k < 2 ^ 31"
    using assms by (auto simp: subPosesInv_def list_all_iff)
  have "checkRig sps = None \<longleftrightarrow>
          (\<forall>(k, c) \<in> set sps. 0 \<le> k \<and> toSizeT k < int (length sps) \<and> c = n0)"
    unfolding sps checkRig_def by (simp only: list.case prod.case checkSubPoses_None)
  also have "\<dots> \<longleftrightarrow> (\<forall>(k, c) \<in> set sps. 0 \<le> k \<and> k < int (length sps) \<and> c = n0)"
  proof -
    have "toSizeT k = k" if "(k, c) \<in> set sps" "0 \<le> k" for k c
      using that range by (force intro: toSizeT_id)
    then show ?thesis by fastforce
  qed
  also have "\<dots> \<longleftrightarrow> (\<forall>k \<in> set (map fst sps). 0 \<le> k \<and> k < int (length (map fst sps)))
                      \<and> (\<forall>(k, c) \<in> set sps. c = n0)"
    by auto
  also have "\<dots> \<longleftrightarrow> set (map fst sps) = {0..<int (length sps)} \<and> (\<forall>(k, n) \<in> set sps. n = snd (hd sps))"
    using pigeonhole_indices [OF dist] by (simp add: sps)
  finally show ?thesis .
qed

lemma keys_incrSubPose: "fst ` set (incrSubPose k sps) = insert k (fst ` set sps)"
  by (induction sps) force+

lemma sorted_incrSubPose:
  "sorted_wrt (<) (map fst sps) \<Longrightarrow> sorted_wrt (<) (map fst (incrSubPose k sps))"
proof (induction sps)
  case Nil
  then show ?case by simp
next
  case (Cons a sps)
  obtain k' n where a: "a = (k', n)" by (cases a)
  show ?case
    using Cons keys_incrSubPose [of k sps] unfolding a by auto
qed

lemma incrSubPose_not_Nil: "incrSubPose k sps \<noteq> []"
  by (cases sps) (auto split: if_splits)

lemma subPosesInv_incrSubPose:
  assumes "- (2 ^ 31) \<le> k" "k < 2 ^ 31" "sps = [] \<or> subPosesInv sps"
  shows "subPosesInv (incrSubPose k sps)"
  using assms keys_incrSubPose [of k sps] sorted_incrSubPose [of sps k] incrSubPose_not_Nil [of k sps]
  by (auto simp: subPosesInv_def list_all_iff)

lemma keys_incrRig: "fst ` set (incrRig r k rigs) = insert r (fst ` set rigs)"
  by (induction rigs) force+

lemma sorted_incrRig:
  "sorted_wrt (<) (map fst rigs) \<Longrightarrow> sorted_wrt (<) (map fst (incrRig r k rigs))"
proof (induction rigs)
  case Nil
  then show ?case by simp
next
  case (Cons a rigs)
  obtain r' sps where a: "a = (r', sps)" by (cases a)
  show ?case
    using Cons keys_incrRig [of r k rigs] unfolding a by auto
qed

lemma all_incrRig:
  assumes "- (2 ^ 31) \<le> k" "k < 2 ^ 31"
  shows "list_all subPosesInv (map snd rigs) \<Longrightarrow> list_all subPosesInv (map snd (incrRig r k rigs))"
proof (induction rigs)
  case Nil
  show ?case
    using subPosesInv_incrSubPose [OF assms, of "[]"] by simp
next
  case (Cons a rigs)
  obtain r' sps where a: "a = (r', sps)" by (cases a)
  show ?case
    using Cons subPosesInv_incrSubPose [OF assms, of sps] subPosesInv_incrSubPose [OF assms, of "[]"]
    unfolding a by auto
qed

lemma detectedRigsInv_incrRig:
  "detectedRigsInv rigs \<Longrightarrow> detectedRigsInv (incrRig r (sint (w :: 32 word)) rigs)"
proof -
  have lo: "- (2 ^ 31) \<le> sint w" using sint_ge [of w] by simp
  have hi: "sint w < 2 ^ 31" using sint_lt [of w] by simp
  show "detectedRigsInv rigs \<Longrightarrow> detectedRigsInv (incrRig r (sint w) rigs)"
    using all_incrRig [OF lo hi, of rigs r] sorted_incrRig [of rigs r "sint w"]
    by (simp add: detectedRigsInv_def)
qed

lemma detectedRigs_detectRig:
  "detectedRigsInv (detectedRigs s) \<Longrightarrow> detectedRigsInv (detectedRigs (snd (detectRig h view s)))"
  by (auto simp: detectRig_def Let_def detectedRigsInv_incrRig split: sum.splits)

lemma detectedRigs_lookupSensorWidth:
  "detectedRigs (snd (lookupSensorWidth gi db view r s)) = detectedRigs s"
  by (simp add: lookupSensorWidth_def split: option.splits)

lemma detectedRigs_estimateFromFocal35mm:
  "detectedRigs (snd (estimateFromFocal35mm view r s)) = detectedRigs s"
  by (simp add: estimateFromFocal35mm_def Let_def split: option.splits)

lemma detectedRigs_recordMissingSensor:
  "detectedRigs (recordMissingSensor view s) = detectedRigs s"
  by (simp add: recordMissingSensor_def)

lemma detectedRigs_buildIntrinsic:
  "buildIntrinsic e opts defaults view r s = Inr (view', s') \<Longrightarrow> detectedRigs s' = detectedRigs s"
  by (auto simp: buildIntrinsic_def Let_def split: prod.splits if_splits)

lemma detectedRigs_resolveSensorWidth:
  "detectedRigs (snd (resolveSensorWidth e db view s)) = detectedRigs s"
proof -
  obtain r1 s1 where l: "lookupSensorWidth (getInfo e) db view
      \<lparr>sensorWidth = Finite (- 1), focalLength = metadataFocalLength view,
        intrinsicInitMode = SET_FROM_DEFAULT_FOV\<rparr> s = (r1, s1)"
    by (cases "lookupSensorWidth (getInfo e) db view
      \<lparr>sensorWidth = Finite (- 1), focalLength = metadataFocalLength view,
        intrinsicInitMode = SET_FROM_DEFAULT_FOV\<rparr> s")
  have "detectedRigs s1 = detectedRigs s"
    using detectedRigs_lookupSensorWidth l by (metis snd_conv)
  then show ?thesis
    using l detectedRigs_estimateFromFocal35mm [of view r1 s1]
    by (simp add: resolveSensorWidth_def)
qed

lemma detectedRigs_processView:
  assumes "processView e opts defaults db view s = Inr (view', s')"
  shows "detectedRigs s' = detectedRigs (snd (detectRig (hashString e) view s))"
proof -
  obtain v1 s1 where d: "detectRig (hashString e) view s = (v1, s1)"
    by (cases "detectRig (hashString e) view s")
  obtain r2 s2 where f: "resolveSensorWidth e db v1 s1 = (r2, s2)"
    by (cases "resolveSensorWidth e db v1 s1")
  have s2: "detectedRigs s2 = detectedRigs s1"
    using detectedRigs_resolveSensorWidth [of e db v1 s1] f by simp
  show ?thesis
    using assms d f s2 detectedRigs_recordMissingSensor [of v1 s2]
    by (auto simp: processView_def Let_def split: if_splits dest!: detectedRigs_buildIntrinsic)
qed

lemma detectedRigsInv_processViews:
  "processViews e opts defaults db views s = Inr (views', s') \<Longrightarrow>
   detectedRigsInv (detectedRigs s) \<Longrightarrow> detectedRigsInv (detectedRigs s')"
proof (induction views arbitrary: s views')
  case Nil
  then show ?case by simp
next
  case (Cons view views)
  from Cons.prems(1) obtain v1 s1 vs1 where
    p: "processView e opts defaults db view s = Inr (v1, s1)" and
    ps: "processViews e opts defaults db views s1 = Inr (vs1, s')"
    by (auto split: sum.splits prod.splits)
  have "detectedRigsInv (detectedRigs s1)"
    using detectedRigs_processView [OF p] detectedRigs_detectRig [OF Cons.prems(2)] by simp
  then show ?case
    using Cons.IH [OF ps] by simp
qed

lemma checkRig_Some:
  "checkRig sps = Some err \<Longrightarrow> err = WrongSubPoseId \<or> err = WrongNbPoses"
  by (auto simp: checkRig_def split: list.splits dest: checkSubPoses_Some)

lemma createRigs_Inr_iff:
  "(\<exists>rigs. createRigs l rigs0 = Inr rigs) \<longleftrightarrow> (\<forall>(r, sps) \<in> set l. checkRig sps = None)"
proof (induction l arbitrary: rigs0)
  case Nil
  then show ?case by simp
next
  case (Cons a l)
  obtain r' sps where a: "a = (r', sps)" by (cases a)
  show ?case
  proof (cases "checkRig sps")
    case None
    then show ?thesis
      using Cons.IH [of "emplace rigs0 r' (Rig (length sps))"] by (simp add: a)
  next
    case (Some err)
    then show ?thesis by (simp add: a)
  qed
qed

lemma createRigs_Inl:
  "createRigs l rigs0 = Inl err \<Longrightarrow> err = WrongSubPoseId \<or> err = WrongNbPoses"
  by (induction l arbitrary: rigs0) (auto split: option.splits dest: checkRig_Some)

lemma createRigs_lookup:
  "createRigs l rigs0 = Inr rigs \<Longrightarrow>
   rigs r = (case rigs0 r of
               Some old \<Rightarrow> Some old
             | None \<Rightarrow> map_option (\<lambda>sps. Rig (length sps)) (map_of l r))"
proof (induction l arbitrary: rigs0)
  case Nil
  then show ?case by (simp split: option.splits)
next
  case (Cons a l)
  obtain r' sps where a: "a = (r', sps)" by (cases a)
  from Cons.prems have rest: "createRigs l (emplace rigs0 r' (Rig (length sps))) = Inr rigs"
    by (simp add: a split: option.splits)
  show ?case
    using Cons.IH [OF rest] by (auto simp: a emplace_def split: option.splits)
qed

text \<open>
  Claim C5, as amended. After a pass that ran to its end, every rig of the table passes
  the check of lines 552 to 571 exactly when its sub-pose indices are the set
  0 .. nbSubPose - 1, nbSubPose being the number of its entries (the distinct indices
  observed), and every sub-pose has the count of the first one. The loop over the rigs
  succeeds exactly when every rig passes; then the rig table of the scene holds, for
  every detected rig, a \<open>Rig\<close> of nbSubPose sub-poses when the scene had no record
  under that identity, and the record it had otherwise: \<^verbatim>\<open>emplace\<close> at line 573 does
  not replace it. Otherwise the run ends with the failure of the first rig that does
  not pass: an index out of range or a count that differs.
\<close>

theorem rig_validation:
  assumes "checkIntrinsicOptions opts = Inr defaults"
    and "views \<noteq> []"
    and "processViews e opts defaults sensorDatabase views (initialShared intrinsics0) = Inr (views', s)"
  shows "(\<forall>(r, sps) \<in> set (detectedRigs s).
            (checkRig sps = None \<longleftrightarrow>
               set (map fst sps) = {0..<int (length sps)}
               \<and> (\<forall>(k, n) \<in> set sps. n = snd (hd sps))))
       \<and> ((\<exists>rigs. createRigs (detectedRigs s) rigs0 = Inr rigs) \<longleftrightarrow>
            (\<forall>(r, sps) \<in> set (detectedRigs s). checkRig sps = None))
       \<and> (\<forall>rigs. createRigs (detectedRigs s) rigs0 = Inr rigs \<longrightarrow>
            (\<forall>(r, sps) \<in> set (detectedRigs s).
               rigs r = (case rigs0 r of None \<Rightarrow> Some (Rig (length sps)) | Some old \<Rightarrow> Some old)))
       \<and> (\<forall>err. createRigs (detectedRigs s) rigs0 = Inl err \<longrightarrow>
            (err = WrongSubPoseId \<or> err = WrongNbPoses)
            \<and> cameraInit e opts sensorDatabase views intrinsics0 rigs0 = Inl err)"
proof -
  have inv: "detectedRigsInv (detectedRigs s)"
    using detectedRigsInv_processViews [OF assms(3)]
    by (simp add: initialShared_def detectedRigsInv_def)
  have each: "subPosesInv sps" if "(r, sps) \<in> set (detectedRigs s)" for r sps
    using inv that by (force simp: detectedRigsInv_def list_all_iff)
  have dist: "distinct (map fst (detectedRigs s))"
    using inv by (simp add: detectedRigsInv_def strict_sorted_iff)
  have one: "\<forall>(r, sps) \<in> set (detectedRigs s).
            (checkRig sps = None \<longleftrightarrow>
               set (map fst sps) = {0..<int (length sps)}
               \<and> (\<forall>(k, n) \<in> set sps. n = snd (hd sps)))"
    using each checkRig_iff by blast
  have two: "(\<exists>rigs. createRigs (detectedRigs s) rigs0 = Inr rigs) \<longleftrightarrow>
            (\<forall>(r, sps) \<in> set (detectedRigs s). checkRig sps = None)"
    by (rule createRigs_Inr_iff)
  have three: "\<forall>rigs. createRigs (detectedRigs s) rigs0 = Inr rigs \<longrightarrow>
            (\<forall>(r, sps) \<in> set (detectedRigs s).
               rigs r = (case rigs0 r of None \<Rightarrow> Some (Rig (length sps)) | Some old \<Rightarrow> Some old))"
  proof (intro allI impI)
    fix rigs
    assume ok: "createRigs (detectedRigs s) rigs0 = Inr rigs"
    show "\<forall>(r, sps) \<in> set (detectedRigs s).
               rigs r = (case rigs0 r of None \<Rightarrow> Some (Rig (length sps)) | Some old \<Rightarrow> Some old)"
    proof (clarify)
      fix r sps
      assume "(r, sps) \<in> set (detectedRigs s)"
      then have "map_of (detectedRigs s) r = Some sps"
        using dist by simp
      then show "rigs r = (case rigs0 r of None \<Rightarrow> Some (Rig (length sps)) | Some old \<Rightarrow> Some old)"
        using createRigs_lookup [OF ok, of r] by (simp split: option.splits)
    qed
  qed
  have four: "\<forall>err. createRigs (detectedRigs s) rigs0 = Inl err \<longrightarrow>
            (err = WrongSubPoseId \<or> err = WrongNbPoses)
            \<and> cameraInit e opts sensorDatabase views intrinsics0 rigs0 = Inl err"
    using assms createRigs_Inl by (auto simp: cameraInit_def)
  from one two three four show ?thesis by blast
qed

theorem rig_validation_witness:
  "(checkRig [(0, 1), (1, 1)] = None \<longleftrightarrow>
      set (map fst [(0 :: int, 1 :: nat), (1, 1)]) = {0..<int (length [(0 :: int, 1 :: nat), (1, 1)])}
      \<and> (\<forall>(k, n) \<in> set [(0 :: int, 1 :: nat), (1, 1)]. n = snd (hd [(0 :: int, 1 :: nat), (1, 1)])))
   \<and> checkRig [(0, 1), (1, 1)] = None
   \<and> createRigs (detectedRigs exampleRigState) Map.empty = Inr [9 \<mapsto> Rig 2]
   \<and> checkRig [(0, 2), (1, 1)] = Some WrongNbPoses
   \<and> checkRig [(0, 1), (2, 1)] = Some WrongSubPoseId"
proof -
  have counts: "checkRig [(0, 2), (1, 1)] = Some WrongNbPoses"
    by (simp add: checkRig_def toSizeT_def)
  have missing: "checkRig [(0, 1), (2, 1)] = Some WrongSubPoseId"
    by (simp add: checkRig_def toSizeT_def)
  have opts: "checkIntrinsicOptions
                (exampleOptions\<lparr>allowIncompleteOutput := True\<rparr>) = Inr (Finite (- 1), Finite (- 1), Finite (- 1))"
    by (simp add: checkIntrinsicOptions_def exampleOptions_def)
  have views: "exampleRigViews \<noteq> []"
    by (simp add: exampleRigViews_def)
  have rigs: "detectedRigs exampleRigState = [(9, [(0, 1), (1, 1)])]"
    by (simp add: exampleRigState_def)
  have ok: "checkRig [(0, 1), (1, 1)] = None"
    by (simp add: checkRig_def toSizeT_def)
  have made: "createRigs (detectedRigs exampleRigState) Map.empty = Inr [9 \<mapsto> Rig 2]"
    by (simp add: rigs checkRig_def toSizeT_def emplace_def numeral_2_eq_2)
  show ?thesis
    using rig_validation [OF opts views processViews_exampleRig, of Map.empty] ok made counts missing
    by (simp add: rigs)
qed

text \<open>
  Claim C5 as stated fails: no \<open>Rig\<close> of nbSubPose sub-poses is made for a rig whose
  identity the loaded scene already has. The two views below are the sub-poses 0 and 1
  of the rig 9, each observed once, so the rig passes the check with nbSubPose = 2; the
  scene was loaded with a record of 5 sub-poses under the identity 9, and the run ends
  with success and that record.
\<close>

theorem rig_validation_counterexample:
  "detectedRigs exampleRigState = [(9, [(0, 1), (1, 1)])]
   \<and> checkRig [(0, 1), (1, 1)] = None
   \<and> createRigs (detectedRigs exampleRigState) [9 \<mapsto> Rig 5] = Inr [9 \<mapsto> Rig 5]
   \<and> cameraInit exampleExt (exampleOptions\<lparr>allowIncompleteOutput := True\<rparr>) [] exampleRigViews
         Map.empty [9 \<mapsto> Rig 5]
       = Inr ([(exampleView ''/data/rig/0/1.jpg'')
                 \<lparr>rigId := 9, subPoseId := 0, frameId := 1, intrinsicId := UndefinedIndexT\<rparr>,
               (exampleView ''/data/rig/1/1.jpg'')
                 \<lparr>rigId := 9, subPoseId := 1, frameId := 1, intrinsicId := UndefinedIndexT\<rparr>],
              Map.empty, [9 \<mapsto> Rig 5])"
proof -
  have rigs: "detectedRigs exampleRigState = [(9, [(0, 1), (1, 1)])]"
    by (simp add: exampleRigState_def)
  have ok: "checkRig [(0, 1), (1, 1)] = None"
    by (simp add: checkRig_def toSizeT_def)
  have kept: "emplace [9 \<mapsto> Rig 5] 9 (Rig 2) = [(9 :: IndexT) \<mapsto> Rig 5]"
    by (simp add: emplace_def)
  have opts: "checkIntrinsicOptions (exampleOptions\<lparr>allowIncompleteOutput := True\<rparr>)
                = Inr (Finite (- 1), Finite (- 1), Finite (- 1))"
    by (simp add: checkIntrinsicOptions_def exampleOptions_def)
  have allowed: "allowIncompleteOutput (exampleOptions\<lparr>allowIncompleteOutput := True\<rparr>)"
    by simp
  show ?thesis
    using rigs ok createRigs_exampleRig [of "[9 \<mapsto> Rig 5]"]
      cameraInit_exampleRig [OF opts allowed, of "[9 \<mapsto> Rig 5]"]
    by (simp only: kept)
qed

section \<open>Rig detection\<close>

lemma isdigit_not_space: "isdigit c \<Longrightarrow> \<not> isspace c"
  by (auto simp: isdigit_def isspace_def)

lemma isdigit_not_sign: "isdigit c \<Longrightarrow> c \<noteq> CHR ''-'' \<and> c \<noteq> CHR ''+''"
  by (auto simp: isdigit_def)

lemma isdigit_not_dot: "isdigit c \<Longrightarrow> c \<noteq> CHR ''.''"
  by (auto simp: isdigit_def)

lemma stoi_purelyNumeric:
  assumes "purelyNumeric str" "digitsValue str < 2 ^ 31"
  shows "stoi str = Inr (int (digitsValue str))"
proof -
  from assms(1) obtain c cs where str: "str = c # cs" and c: "isdigit c" and cs: "list_all isdigit cs"
    by (cases str) (auto simp: purelyNumeric_def)
  have drop: "dropWhile isspace str = str"
    using c by (simp add: str isdigit_not_space)
  have take: "takeWhile isdigit cs = cs"
    using cs by (simp add: list_all_iff)
  have "int (digitsValue str) < 2 ^ 31"
    using assms(2) by (metis of_nat_less_iff of_nat_numeral of_nat_power)
  then show ?thesis
    using isdigit_not_sign [OF c] c assms(2)
    by (simp add: stoi_def drop Let_def) (simp add: str take)
qed

lemma stoi_range: "stoi str = Inr v \<Longrightarrow> - (2 ^ 31) \<le> v \<and> v < 2 ^ 31"
  by (auto simp: stoi_def Let_def split: if_splits)

lemma sint_stoi: "stoi str = Inr v \<Longrightarrow> sint (word_of_int v :: 32 word) = v"
  using stoi_range [of str v] by (simp add: signed_take_bit_int_eq_self sint_sbintrunc')

lemma stem_purelyNumeric: "purelyNumeric (filename p) \<Longrightarrow> stem p = filename p"
proof -
  assume a: "purelyNumeric (filename p)"
  then have "CHR ''.'' \<notin> set (filename p)"
    using isdigit_not_dot by (auto simp: purelyNumeric_def list_all_iff)
  moreover have "filename p \<noteq> ''.''" "filename p \<noteq> ''..''"
    using a by (auto simp: purelyNumeric_def isdigit_def)
  ultimately show ?thesis
    by (simp add: stem_def Let_def)
qed

lemma stem_rig: "filename p = ''rig'' \<Longrightarrow> stem p = ''rig''"
  by (simp add: stem_def)

lemma map_of_incrSubPose:
  "sorted_wrt (<) (map fst sps) \<Longrightarrow>
   map_of (incrSubPose k sps) k' =
     (if k' = k then Some (case map_of sps k of None \<Rightarrow> 1 | Some n \<Rightarrow> n + 1) else map_of sps k')"
proof (induction sps)
  case Nil
  then show ?case by simp
next
  case (Cons a sps)
  obtain k0 n0 where a: "a = (k0, n0)" by (cases a)
  have later: "map_of sps k = None" if "k < k0"
    using Cons.prems that by (force simp: a map_of_eq_None_iff)
  show ?case
    using Cons later by (auto simp: a)
qed

lemma map_of_incrRig:
  "sorted_wrt (<) (map fst rigs) \<Longrightarrow>
   map_of (incrRig r k rigs) r' =
     (if r' = r then Some (incrSubPose k (case map_of rigs r of None \<Rightarrow> [] | Some sps \<Rightarrow> sps))
      else map_of rigs r')"
proof (induction rigs)
  case Nil
  then show ?case by simp
next
  case (Cons a rigs)
  obtain r0 sps0 where a: "a = (r0, sps0)" by (cases a)
  have later: "map_of rigs r = None" if "r < r0"
    using Cons.prems that by (force simp: a map_of_eq_None_iff)
  show ?case
    using Cons later by (auto simp: a)
qed

lemma rigCount_incrRig:
  assumes "detectedRigsInv rigs"
  shows "rigCount (incrRig r k rigs) r' k' =
           (if r' = r \<and> k' = k then rigCount rigs r k + 1 else rigCount rigs r' k')"
proof -
  have outer: "sorted_wrt (<) (map fst rigs)"
    using assms by (simp add: detectedRigsInv_def)
  have inner: "sorted_wrt (<) (map fst sps)" if "map_of rigs r = Some sps" for sps
  proof -
    from that have "(r, sps) \<in> set rigs" by (rule map_of_SomeD)
    then have "subPosesInv sps"
      using assms by (force simp: detectedRigsInv_def list_all_iff)
    then show ?thesis by (simp add: subPosesInv_def)
  qed
  show ?thesis
  proof (cases "map_of rigs r")
    case None
    then show ?thesis
      by (simp add: rigCount_def map_of_incrRig [OF outer])
  next
    case (Some sps)
    then show ?thesis
      using map_of_incrSubPose [OF inner [OF Some], of k k']
      by (auto simp: rigCount_def map_of_incrRig [OF outer] split: option.splits)
  qed
qed

text \<open>
  Claim C4, as amended. With \<open>p\<close> the image path, \<open>parentPath\<close> its parent and
  \<open>rigRoot\<close> the parent of that:
  \<^item> when the stem of \<open>rigRoot\<close> is \<^verbatim>\<open>rig\<close> and \<^verbatim>\<open>std::stoi\<close> reads \<open>f\<close> from the
    stem of the file and \<open>k\<close> from the stem of \<open>parentPath\<close>, the view gets the rig
    identity \<open>hash rigRoot\<close> (a function of the rig root alone), the sub-pose index
    \<open>k\<close> and the frame index \<open>f\<close>, and the count of (rig, \<open>k\<close>) in the table grows by
    one while every other count stays;
  \<^item> when the stem of \<open>rigRoot\<close> is \<^verbatim>\<open>rig\<close> and one of the two conversions throws, the
    view is left as it was and only the warning is recorded;
  \<^item> otherwise nothing happens.
  In no case does the step fail. A path that follows the convention of the
  specification, with both numbers below \<open>2^31\<close>, is of the first kind, with the numbers
  its digits denote.
\<close>

theorem rig_detection:
  assumes "p = imagePath view"
    and "parentPath = parent_path p"
    and "rigRoot = parent_path parentPath"
  shows "(stem rigRoot = ''rig'' \<and> stoi (stem p) = Inr f \<and> stoi (stem parentPath) = Inr k \<longrightarrow>
            detectRig hash view s =
              (view\<lparr>rigId := ucast (hash rigRoot), subPoseId := word_of_int k,
                    frameId := word_of_int f\<rparr>,
               s\<lparr>detectedRigs := incrRig (ucast (hash rigRoot)) k (detectedRigs s)\<rparr>)
            \<and> (detectedRigsInv (detectedRigs s) \<longrightarrow>
                 rigCount (incrRig (ucast (hash rigRoot)) k (detectedRigs s)) r' k' =
                   (if r' = ucast (hash rigRoot) \<and> k' = k
                    then rigCount (detectedRigs s) r' k' + 1 else rigCount (detectedRigs s) r' k')))
       \<and> (stem rigRoot = ''rig'' \<and> (stoi (stem p) = Inl err \<or> stoi (stem parentPath) = Inl err) \<longrightarrow>
            detectRig hash view s = (view, s\<lparr>rigWarnings := rigWarnings s @ [p]\<rparr>))
       \<and> (stem rigRoot \<noteq> ''rig'' \<longrightarrow> detectRig hash view s = (view, s))
       \<and> (rigConvention p \<and> digitsValue (stem p) < 2 ^ 31
            \<and> digitsValue (stem parentPath) < 2 ^ 31 \<longrightarrow>
            stem rigRoot = ''rig'' \<and> stoi (stem p) = Inr (int (digitsValue (stem p)))
            \<and> stoi (stem parentPath) = Inr (int (digitsValue (stem parentPath))))"
proof (intro conjI impI)
  assume a: "stem rigRoot = ''rig'' \<and> stoi (stem p) = Inr f \<and> stoi (stem parentPath) = Inr k"
  then have "sint (word_of_int k :: 32 word) = k"
    using sint_stoi by blast
  with a show "detectRig hash view s =
              (view\<lparr>rigId := ucast (hash rigRoot), subPoseId := word_of_int k,
                    frameId := word_of_int f\<rparr>,
               s\<lparr>detectedRigs := incrRig (ucast (hash rigRoot)) k (detectedRigs s)\<rparr>)"
    using assms by (simp add: detectRig_def Let_def)
next
  assume "detectedRigsInv (detectedRigs s)"
  then show "rigCount (incrRig (ucast (hash rigRoot)) k (detectedRigs s)) r' k' =
                   (if r' = ucast (hash rigRoot) \<and> k' = k
                    then rigCount (detectedRigs s) r' k' + 1 else rigCount (detectedRigs s) r' k')"
    by (simp add: rigCount_incrRig)
next
  assume "stem rigRoot = ''rig'' \<and> (stoi (stem p) = Inl err \<or> stoi (stem parentPath) = Inl err)"
  then show "detectRig hash view s = (view, s\<lparr>rigWarnings := rigWarnings s @ [p]\<rparr>)"
    using assms by (auto simp: detectRig_def Let_def split: sum.splits)
next
  assume "stem rigRoot \<noteq> ''rig''"
  then show "detectRig hash view s = (view, s)"
    using assms by (simp add: detectRig_def)
next
  assume a: "rigConvention p \<and> digitsValue (stem p) < 2 ^ 31
            \<and> digitsValue (stem parentPath) < 2 ^ 31"
  then show "stem rigRoot = ''rig''"
    using assms by (simp add: rigConvention_def stem_rig)
  from a have "purelyNumeric (stem p)"
    by (simp add: rigConvention_def)
  with a show "stoi (stem p) = Inr (int (digitsValue (stem p)))"
    by (simp add: stoi_purelyNumeric)
  from a have pn: "purelyNumeric (filename parentPath)"
    using assms by (simp add: rigConvention_def)
  then have "stem parentPath = filename parentPath"
    by (rule stem_purelyNumeric)
  with a pn show "stoi (stem parentPath) = Inr (int (digitsValue (stem parentPath)))"
    by (simp add: stoi_purelyNumeric)
qed

text \<open>
  Claim C4 as stated fails in both directions. \<^verbatim>\<open>std::stoi\<close> reads a leading number
  and ignores the rest, so \<^verbatim>\<open>/data/rig/2x/5b.jpg\<close> is recorded as sub-pose 2, frame 5
  of a rig although neither name is purely numeric; and a purely numeric name that
  does not fit an \<^verbatim>\<open>int\<close> makes \<^verbatim>\<open>std::stoi\<close> throw, so \<^verbatim>\<open>/data/rig/99999999999/1.jpg\<close>
  follows the convention and is kept as a single image.
\<close>

theorem rig_detection_counterexample:
  "\<not> rigConvention ''/data/rig/2x/5b.jpg''
   \<and> detectRig (\<lambda>p. 0) (exampleView ''/data/rig/2x/5b.jpg'') (initialShared Map.empty)
       = ((exampleView ''/data/rig/2x/5b.jpg'')\<lparr>rigId := 0, subPoseId := 2, frameId := 5\<rparr>,
          (initialShared Map.empty)\<lparr>detectedRigs := [(0, [(2, 1)])]\<rparr>)
   \<and> rigConvention ''/data/rig/99999999999/1.jpg''
   \<and> detectRig (\<lambda>p. 0) (exampleView ''/data/rig/99999999999/1.jpg'') (initialShared Map.empty)
       = (exampleView ''/data/rig/99999999999/1.jpg'',
          (initialShared Map.empty)\<lparr>rigWarnings := [''/data/rig/99999999999/1.jpg'']\<rparr>)"
proof (intro conjI)
  show "\<not> rigConvention ''/data/rig/2x/5b.jpg''"
    by (simp add: rigConvention_def purelyNumeric_def path_eval isdigit_def)
  show "detectRig (\<lambda>p. 0) (exampleView ''/data/rig/2x/5b.jpg'') (initialShared Map.empty)
       = ((exampleView ''/data/rig/2x/5b.jpg'')\<lparr>rigId := 0, subPoseId := 2, frameId := 5\<rparr>,
          (initialShared Map.empty)\<lparr>detectedRigs := [(0, [(2, 1)])]\<rparr>)"
    by (simp add: detectRig_def path_eval stoi_eval exampleView_simps initialShared_def)
  show "rigConvention ''/data/rig/99999999999/1.jpg''"
    by (simp add: rigConvention_def purelyNumeric_def path_eval isdigit_def)
  show "detectRig (\<lambda>p. 0) (exampleView ''/data/rig/99999999999/1.jpg'') (initialShared Map.empty)
       = (exampleView ''/data/rig/99999999999/1.jpg'',
          (initialShared Map.empty)\<lparr>rigWarnings := [''/data/rig/99999999999/1.jpg'']\<rparr>)"
    by (simp add: detectRig_def path_eval stoi_eval exampleView_simps initialShared_def)
qed

text \<open>
  The path \<^verbatim>\<open>/data/rig/2/000005.jpg\<close> gives sub-pose 2 and frame 5, and the first
  observation of that sub-pose.
\<close>

theorem rig_detection_witness:
  "detectRig (hashString exampleExt) (exampleView ''/data/rig/2/000005.jpg'') (initialShared Map.empty)
     = ((exampleView ''/data/rig/2/000005.jpg'')\<lparr>rigId := 9, subPoseId := 2, frameId := 5\<rparr>,
        (initialShared Map.empty)\<lparr>detectedRigs := [(9, [(2, 1)])]\<rparr>)
   \<and> rigCount [(9, [(2, 1)])] 9 2 = 1
   \<and> rigConvention ''/data/rig/2/000005.jpg''"
proof -
  have p: "''/data/rig/2/000005.jpg'' = imagePath (exampleView ''/data/rig/2/000005.jpg'')"
    by (simp add: exampleView_simps)
  have parent: "''/data/rig/2'' = parent_path ''/data/rig/2/000005.jpg''"
    by (simp add: path_eval)
  have root: "''/data/rig'' = parent_path ''/data/rig/2''"
    by (simp add: path_eval)
  have found: "stem ''/data/rig'' = ''rig'' \<and> stoi (stem ''/data/rig/2/000005.jpg'') = Inr 5
                 \<and> stoi (stem ''/data/rig/2'') = Inr 2"
    by (simp add: path_eval stoi_eval)
  have inv: "detectedRigsInv (detectedRigs (initialShared Map.empty))"
    by (simp add: detectedRigsInv_def initialShared_def)
  have conv: "rigConvention ''/data/rig/2/000005.jpg''"
    by (simp add: rigConvention_def purelyNumeric_def path_eval isdigit_def)
  have h: "(ucast (hashString exampleExt ''/data/rig'') :: IndexT) = 9"
    by (simp add: exampleExt_def)
  show ?thesis
    using rig_detection [OF p parent root, of 5 2 "hashString exampleExt" "initialShared Map.empty" 9 2]
      found inv conv
    by (simp add: h initialShared_def rigCount_def)
qed

section \<open>Sensor width and focal length\<close>

lemma exampleCanonView_simps:
  "imagePath (exampleCanonView p m) = p"
  "width (exampleCanonView p m) = 5760"
  "height (exampleCanonView p m) = 3840"
  "metadataMake (exampleCanonView p m) = ''Canon''"
  "metadataModel (exampleCanonView p m) = m"
  "metadataFocalLength (exampleCanonView p m) = Finite 50"
  "focalLengthIn35mmFilm (exampleCanonView p m) = Some (Finite 50)"
  "intrinsicId (exampleCanonView p m) = UndefinedIndexT"
  "rigId (exampleCanonView p m) = UndefinedIndexT"
  by (simp_all add: exampleCanonView_def)

text \<open>
  What the 35mm step computes where a formula divides by zero. With a 35mm value of 0
  and a known focal length, line 456 divides by it and the sensor width is infinite;
  for an image of width 0 the inverse ratio is infinite, and the sensor width and the
  focal length of lines 461 and 462 are 0.
\<close>

lemma estimateFromFocal35mm_zero_focal35mm:
  assumes "focalLengthIn35mmFilm view = Some (Finite 0)"
    and "0 < width view" and "0 < height view"
    and "sensorWidth r = Finite (- 1)" and "focalLength r = Finite fl" and "0 < fl"
  shows "sensorWidth (fst (estimateFromFocal35mm view r s)) = PInf"
proof -
  have ratio: "real (width view) / real (height view) \<noteq> 0"
    using assms(2,3) by simp
  have root: "dsqrt (Finite 1 / (Finite 1
                + (Finite 1 / (Finite (real (width view)) / Finite (real (height view))))
                  * (Finite 1 / (Finite (real (width view)) / Finite (real (height view))))))
              = Finite (sqrt (1 / (1 + (1 / (real (width view) / real (height view)))\<^sup>2)))"
    using assms(3) inverse_square_Finite [OF ratio] by simp
  have positive: "0 < sqrt (1 / (1 + (1 / (real (width view) / real (height view)))\<^sup>2))"
    by (simp add: add_pos_nonneg)
  have diag: "Finite fl * diag24x36 / Finite 0 = PInf"
    using assms(6) by (simp add: diag24x36_def Finite_divide_zero)
  have "sensorWidth (fst (estimateFromFocal35mm view r s))
          = (Finite fl * diag24x36 / Finite 0)
            * dsqrt (Finite 1 / (Finite 1
                + (Finite 1 / (Finite (real (width view)) / Finite (real (height view))))
                  * (Finite 1 / (Finite (real (width view)) / Finite (real (height view))))))"
    using assms(1,4,5,6)
    by (simp add: estimateFromFocal35mm_def imageRatio_def Let_def del: Finite_divide)
  also have "\<dots> = PInf"
    unfolding root diag using positive by (simp add: times_double_def)
  finally show ?thesis .
qed

lemma estimateFromFocal35mm_zero_width:
  assumes "focalLengthIn35mmFilm view = Some (Finite f)"
    and "width view = 0" and "0 < height view"
    and "sensorWidth r = Finite (- 1)" and "\<not> focalLength r > Finite 0"
  shows "sensorWidth (fst (estimateFromFocal35mm view r s)) = Finite 0
       \<and> focalLength (fst (estimateFromFocal35mm view r s)) = Finite 0"
  using assms
  by (simp add: estimateFromFocal35mm_def imageRatio_def diag24x36_def Let_def
        divide_double_def times_double_def plus_double_def)

text \<open>
  Claim C1. For a view with a 'FocalLengthIn35mmFilm' value \<open>focal35mm\<close>, with
  \<open>ratio\<close> the image width over the image height and \<open>D\<close> the diagonal of the 24 x 36
  frame, the step of lines 448 to 474 takes the locals \<open>r\<close> to \<open>r'\<close> as follows. A
  sensor width is unresolved while it has the value \<open>-1\<close> it was initialised with, and
  a focal length is known when it is positive:
  \<^item> sensor width unresolved, focal length known: the sensor width becomes
    \<open>(focalLength * D / focal35mm) * sqrt (1 / (1 + (1 / ratio)\<^sup>2))\<close>;
  \<^item> both unresolved: the sensor width becomes \<open>D * sqrt (1 / (1 + (1 / ratio)\<^sup>2))\<close>
    and the focal length that sensor width times \<open>focal35mm / 36\<close>;
  \<^item> sensor width resolved (the step tests \<open>sensorWidth > 0\<close>) and focal length not:
    the focal length becomes
    \<open>sqrt (sensorWidth\<^sup>2 + (sensorWidth / ratio)\<^sup>2) * focal35mm / D\<close>;
  \<^item> in every other case both values stay.

  The first four parts state this in the arithmetic of \<^verbatim>\<open>double\<close>, in which the program
  evaluates the formulas, whatever the values are: a division by zero there gives an
  infinity or not-a-number. The last three parts give the results as real numbers, for
  an image of positive width and height and values that are numbers; the 35mm value,
  where a formula divides by it, is other than 0.
\<close>

theorem focal35mm_estimation:
  assumes "focalLengthIn35mmFilm view = Some focal35mm"
    and "ratio = Finite (real (width view)) / Finite (real (height view))"
    and "D = dsqrt (Finite 36 * Finite 36 + Finite 24 * Finite 24)"
    and "estimateFromFocal35mm view r s = (r', s')"
  shows "(sensorWidth r = Finite (- 1) \<and> focalLength r > Finite 0 \<longrightarrow>
            sensorWidth r' = (focalLength r * D / focal35mm)
                             * dsqrt (Finite 1 / (Finite 1 + (Finite 1 / ratio) * (Finite 1 / ratio)))
            \<and> focalLength r' = focalLength r)
       \<and> (sensorWidth r = Finite (- 1) \<and> \<not> focalLength r > Finite 0 \<longrightarrow>
            sensorWidth r' = D * dsqrt (Finite 1 / (Finite 1 + (Finite 1 / ratio) * (Finite 1 / ratio)))
            \<and> focalLength r' = sensorWidth r' * focal35mm / Finite 36)
       \<and> (sensorWidth r > Finite 0 \<and> focalLength r \<le> Finite 0 \<longrightarrow>
            focalLength r' = dsqrt (sensorWidth r * sensorWidth r
                                    + (sensorWidth r / ratio) * (sensorWidth r / ratio))
                             * focal35mm / D
            \<and> sensorWidth r' = sensorWidth r)
       \<and> (sensorWidth r \<noteq> Finite (- 1) \<and> \<not> (sensorWidth r > Finite 0 \<and> focalLength r \<le> Finite 0) \<longrightarrow>
            focalLength r' = focalLength r \<and> sensorWidth r' = sensorWidth r)
       \<and> (\<forall>f fl. 0 < width view \<and> 0 < height view \<and> focal35mm = Finite f \<and> f \<noteq> 0
             \<and> sensorWidth r = Finite (- 1) \<and> focalLength r = Finite fl \<and> 0 < fl \<longrightarrow>
            sensorWidth r' =
              Finite ((fl * sqrt (36\<^sup>2 + 24\<^sup>2) / f)
                      * sqrt (1 / (1 + (1 / (real (width view) / real (height view)))\<^sup>2))))
       \<and> (\<forall>f. 0 < width view \<and> 0 < height view \<and> focal35mm = Finite f
             \<and> sensorWidth r = Finite (- 1) \<and> \<not> focalLength r > Finite 0 \<longrightarrow>
            sensorWidth r' =
              Finite (sqrt (36\<^sup>2 + 24\<^sup>2)
                      * sqrt (1 / (1 + (1 / (real (width view) / real (height view)))\<^sup>2)))
            \<and> focalLength r' =
              Finite (sqrt (36\<^sup>2 + 24\<^sup>2)
                      * sqrt (1 / (1 + (1 / (real (width view) / real (height view)))\<^sup>2))
                      * f / 36))
       \<and> (\<forall>f sw. 0 < width view \<and> 0 < height view \<and> focal35mm = Finite f
             \<and> sensorWidth r = Finite sw \<and> 0 < sw \<and> focalLength r \<le> Finite 0 \<longrightarrow>
            focalLength r' =
              Finite (sqrt (sw\<^sup>2 + (sw / (real (width view) / real (height view)))\<^sup>2) * f
                      / sqrt (36\<^sup>2 + 24\<^sup>2)))"
proof -
  have step: "r' = fst (estimateFromFocal35mm view r s)"
    using assms(4) by simp
  have one: "sensorWidth r = Finite (- 1) \<and> focalLength r > Finite 0 \<longrightarrow>
            sensorWidth r' = (focalLength r * D / focal35mm)
                             * dsqrt (Finite 1 / (Finite 1 + (Finite 1 / ratio) * (Finite 1 / ratio)))
            \<and> focalLength r' = focalLength r"
    using assms(1-3) unfolding step
    by (simp add: estimateFromFocal35mm_def imageRatio_def diag24x36_def Let_def)
  have two: "sensorWidth r = Finite (- 1) \<and> \<not> focalLength r > Finite 0 \<longrightarrow>
            sensorWidth r' = D * dsqrt (Finite 1 / (Finite 1 + (Finite 1 / ratio) * (Finite 1 / ratio)))
            \<and> focalLength r' = sensorWidth r' * focal35mm / Finite 36"
    using assms(1-3) unfolding step
    by (simp add: estimateFromFocal35mm_def imageRatio_def diag24x36_def Let_def)
  have three: "sensorWidth r > Finite 0 \<and> focalLength r \<le> Finite 0 \<longrightarrow>
            focalLength r' = dsqrt (sensorWidth r * sensorWidth r
                                    + (sensorWidth r / ratio) * (sensorWidth r / ratio))
                             * focal35mm / D
            \<and> sensorWidth r' = sensorWidth r"
    using assms(1-3) unfolding step
    by (auto simp: estimateFromFocal35mm_def imageRatio_def diag24x36_def Let_def)
  have four: "sensorWidth r \<noteq> Finite (- 1) \<and> \<not> (sensorWidth r > Finite 0 \<and> focalLength r \<le> Finite 0) \<longrightarrow>
            focalLength r' = focalLength r \<and> sensorWidth r' = sensorWidth r"
    using assms(1-3) unfolding step
    by (auto simp: estimateFromFocal35mm_def imageRatio_def diag24x36_def Let_def)
  have size: "ratio = Finite (real (width view) / real (height view))"
             "real (width view) / real (height view) \<noteq> 0"
    if "0 < width view \<and> 0 < height view"
    using that assms(2) by simp_all
  have root: "dsqrt (Finite 1 / (Finite 1 + (Finite 1 / ratio) * (Finite 1 / ratio)))
                = Finite (sqrt (1 / (1 + (1 / (real (width view) / real (height view)))\<^sup>2)))"
    if "0 < width view \<and> 0 < height view"
    unfolding size(1) [OF that] by (rule inverse_square_Finite [OF size(2) [OF that]])
  have diagonal: "dsqrt (sensorWidth r * sensorWidth r
                         + (sensorWidth r / ratio) * (sensorWidth r / ratio))
                = Finite (sqrt (sw\<^sup>2 + (sw / (real (width view) / real (height view)))\<^sup>2))"
    if "0 < width view \<and> 0 < height view" and "sensorWidth r = Finite sw" for sw
    unfolding size(1) [OF that(1)] that(2) by (rule sum_squares_Finite [OF size(2) [OF that(1)]])
  have D: "D = Finite (sqrt (36\<^sup>2 + 24\<^sup>2))"
    unfolding assms(3) by (rule diag24x36_Finite)
  have five: "\<forall>f fl. 0 < width view \<and> 0 < height view \<and> focal35mm = Finite f \<and> f \<noteq> 0
             \<and> sensorWidth r = Finite (- 1) \<and> focalLength r = Finite fl \<and> 0 < fl \<longrightarrow>
            sensorWidth r' =
              Finite ((fl * sqrt (36\<^sup>2 + 24\<^sup>2) / f)
                      * sqrt (1 / (1 + (1 / (real (width view) / real (height view)))\<^sup>2)))"
  proof (intro allI impI)
    fix f fl
    assume a: "0 < width view \<and> 0 < height view \<and> focal35mm = Finite f \<and> f \<noteq> 0
             \<and> sensorWidth r = Finite (- 1) \<and> focalLength r = Finite fl \<and> 0 < fl"
    then have wh: "0 < width view \<and> 0 < height view"
      by simp
    from a one have "sensorWidth r' = (Finite fl * D / Finite f)
                       * dsqrt (Finite 1 / (Finite 1 + (Finite 1 / ratio) * (Finite 1 / ratio)))"
      by simp
    then show "sensorWidth r' =
              Finite ((fl * sqrt (36\<^sup>2 + 24\<^sup>2) / f)
                      * sqrt (1 / (1 + (1 / (real (width view) / real (height view)))\<^sup>2)))"
      using a by (simp add: root [OF wh] D)
  qed
  have six: "\<forall>f. 0 < width view \<and> 0 < height view \<and> focal35mm = Finite f
             \<and> sensorWidth r = Finite (- 1) \<and> \<not> focalLength r > Finite 0 \<longrightarrow>
            sensorWidth r' =
              Finite (sqrt (36\<^sup>2 + 24\<^sup>2)
                      * sqrt (1 / (1 + (1 / (real (width view) / real (height view)))\<^sup>2)))
            \<and> focalLength r' =
              Finite (sqrt (36\<^sup>2 + 24\<^sup>2)
                      * sqrt (1 / (1 + (1 / (real (width view) / real (height view)))\<^sup>2))
                      * f / 36)"
  proof (intro allI impI)
    fix f
    assume a: "0 < width view \<and> 0 < height view \<and> focal35mm = Finite f
             \<and> sensorWidth r = Finite (- 1) \<and> \<not> focalLength r > Finite 0"
    then have wh: "0 < width view \<and> 0 < height view"
      by simp
    from a two have "sensorWidth r' =
                       D * dsqrt (Finite 1 / (Finite 1 + (Finite 1 / ratio) * (Finite 1 / ratio)))
                     \<and> focalLength r' = sensorWidth r' * Finite f / Finite 36"
      by simp
    then show "sensorWidth r' =
              Finite (sqrt (36\<^sup>2 + 24\<^sup>2)
                      * sqrt (1 / (1 + (1 / (real (width view) / real (height view)))\<^sup>2)))
            \<and> focalLength r' =
              Finite (sqrt (36\<^sup>2 + 24\<^sup>2)
                      * sqrt (1 / (1 + (1 / (real (width view) / real (height view)))\<^sup>2))
                      * f / 36)"
      by (simp add: root [OF wh] D)
  qed
  have seven: "\<forall>f sw. 0 < width view \<and> 0 < height view \<and> focal35mm = Finite f
             \<and> sensorWidth r = Finite sw \<and> 0 < sw \<and> focalLength r \<le> Finite 0 \<longrightarrow>
            focalLength r' =
              Finite (sqrt (sw\<^sup>2 + (sw / (real (width view) / real (height view)))\<^sup>2) * f
                      / sqrt (36\<^sup>2 + 24\<^sup>2))"
  proof (intro allI impI)
    fix f sw
    assume a: "0 < width view \<and> 0 < height view \<and> focal35mm = Finite f
             \<and> sensorWidth r = Finite sw \<and> 0 < sw \<and> focalLength r \<le> Finite 0"
    then have wh: "0 < width view \<and> 0 < height view" and sw: "sensorWidth r = Finite sw"
      by simp_all
    have guard: "sensorWidth r > Finite 0 \<and> focalLength r \<le> Finite 0"
      using a by simp
    have f: "focal35mm = Finite f"
      using a by simp
    from three guard have fl: "focalLength r' =
        dsqrt (sensorWidth r * sensorWidth r + (sensorWidth r / ratio) * (sensorWidth r / ratio))
        * focal35mm / D"
      by simp
    have "focalLength r' =
            Finite (sqrt (sw\<^sup>2 + (sw / (real (width view) / real (height view)))\<^sup>2))
            * Finite f / Finite (sqrt (36\<^sup>2 + 24\<^sup>2))"
      unfolding fl diagonal [OF wh sw] D f by (rule refl)
    then show "focalLength r' =
              Finite (sqrt (sw\<^sup>2 + (sw / (real (width view) / real (height view)))\<^sup>2) * f
                      / sqrt (36\<^sup>2 + 24\<^sup>2))"
      by simp
  qed
  from one two three four five six seven show ?thesis
    by (intro conjI)
qed

text \<open>
  An image of 6000 x 4000 with the 35mm value 35 and neither sensor width nor focal
  length: the sensor width is 36 and the focal length 35.
\<close>

lemma sqrt_1296: "sqrt 1296 = 36"
proof -
  have "sqrt ((36 :: real)\<^sup>2) = 36" by simp
  then show ?thesis by simp
qed

lemma ratio_only_width: "sqrt (36\<^sup>2 + 24\<^sup>2) * sqrt (1 / (1 + (1 / (real 6000 / real 4000))\<^sup>2)) = 36"
proof -
  have "sqrt (36\<^sup>2 + 24\<^sup>2) * sqrt (1 / (1 + (1 / (real 6000 / real 4000))\<^sup>2))
          = sqrt ((36\<^sup>2 + 24\<^sup>2) * (1 / (1 + (1 / (real 6000 / real 4000))\<^sup>2)))"
    by (simp only: real_sqrt_mult)
  also have "(36\<^sup>2 + 24\<^sup>2) * (1 / (1 + (1 / (real 6000 / real 4000))\<^sup>2)) = (1296 :: real)"
    by (simp add: power2_eq_square)
  finally show ?thesis by (simp only: sqrt_1296)
qed

theorem focal35mm_estimation_witness:
  "sensorWidth (fst (estimateFromFocal35mm
       ((exampleView ''/data/a.jpg'')\<lparr>focalLengthIn35mmFilm := Some (Finite 35)\<rparr>)
       \<lparr>sensorWidth = Finite (- 1), focalLength = Finite (- 1),
        intrinsicInitMode = SET_FROM_DEFAULT_FOV\<rparr>
       (initialShared Map.empty))) = Finite 36
   \<and> focalLength (fst (estimateFromFocal35mm
       ((exampleView ''/data/a.jpg'')\<lparr>focalLengthIn35mmFilm := Some (Finite 35)\<rparr>)
       \<lparr>sensorWidth = Finite (- 1), focalLength = Finite (- 1),
        intrinsicInitMode = SET_FROM_DEFAULT_FOV\<rparr>
       (initialShared Map.empty))) = Finite 35"
proof -
  have f35: "focalLengthIn35mmFilm
               ((exampleView ''/data/a.jpg'')\<lparr>focalLengthIn35mmFilm := Some (Finite 35)\<rparr>)
               = Some (Finite 35)"
    by simp
  have w: "width ((exampleView ''/data/a.jpg'')\<lparr>focalLengthIn35mmFilm := Some (Finite 35)\<rparr>) = 6000"
    and h: "height ((exampleView ''/data/a.jpg'')\<lparr>focalLengthIn35mmFilm := Some (Finite 35)\<rparr>) = 4000"
    by (simp_all add: exampleView_simps)
  have unresolved:
    "0 < width ((exampleView ''/data/a.jpg'')\<lparr>focalLengthIn35mmFilm := Some (Finite 35)\<rparr>)
     \<and> 0 < height ((exampleView ''/data/a.jpg'')\<lparr>focalLengthIn35mmFilm := Some (Finite 35)\<rparr>)
     \<and> Finite 35 = Finite 35
     \<and> sensorWidth \<lparr>sensorWidth = Finite (- 1), focalLength = Finite (- 1),
                     intrinsicInitMode = SET_FROM_DEFAULT_FOV\<rparr> = Finite (- 1)
     \<and> \<not> focalLength \<lparr>sensorWidth = Finite (- 1), focalLength = Finite (- 1),
                        intrinsicInitMode = SET_FROM_DEFAULT_FOV\<rparr> > Finite 0"
    by (simp add: w h)
  have "sensorWidth (fst (estimateFromFocal35mm
       ((exampleView ''/data/a.jpg'')\<lparr>focalLengthIn35mmFilm := Some (Finite 35)\<rparr>)
       \<lparr>sensorWidth = Finite (- 1), focalLength = Finite (- 1),
        intrinsicInitMode = SET_FROM_DEFAULT_FOV\<rparr>
       (initialShared Map.empty)))
      = Finite (sqrt (36\<^sup>2 + 24\<^sup>2) * sqrt (1 / (1 + (1 / (real 6000 / real 4000))\<^sup>2)))
    \<and> focalLength (fst (estimateFromFocal35mm
       ((exampleView ''/data/a.jpg'')\<lparr>focalLengthIn35mmFilm := Some (Finite 35)\<rparr>)
       \<lparr>sensorWidth = Finite (- 1), focalLength = Finite (- 1),
        intrinsicInitMode = SET_FROM_DEFAULT_FOV\<rparr>
       (initialShared Map.empty)))
      = Finite (sqrt (36\<^sup>2 + 24\<^sup>2) * sqrt (1 / (1 + (1 / (real 6000 / real 4000))\<^sup>2)) * 35 / 36)"
    using focal35mm_estimation [OF f35 refl refl prod.collapse [symmetric],
          THEN conjunct2, THEN conjunct2, THEN conjunct2, THEN conjunct2, THEN conjunct2,
          THEN conjunct1, THEN spec [where x = 35], THEN mp, OF unresolved]
    by (simp only: w h)
  then show ?thesis
    by (simp only: ratio_only_width) simp
qed

text \<open>
  Claim C3. For a view with a make or a model for which the sensor lookup returns a
  datasheet, the step of lines 426 to 445 sets the sensor width to the datasheet's
  sensor size. When the datasheet's model is the view's model the shared state is left
  as it was; when it differs, an entry for (make, model) holding the image path and the
  datasheet is emplaced in the unsure sensors, so the entry is that of the first such
  view. The 35mm step after it keeps the width unless the datasheet holds the value
  \<open>-1\<close> that stands for an unresolved width.
\<close>

theorem sensor_lookup:
  assumes "hasCameraMetadata view"
    and "gi (metadataMake view) (metadataModel view) sensorDatabase = Some datasheet"
    and "lookupSensorWidth gi sensorDatabase view r s = (r1, s1)"
  shows "sensorWidth r1 = d_sensorSize datasheet
       \<and> (d_model datasheet = metadataModel view \<longrightarrow> s1 = s)
       \<and> (d_model datasheet \<noteq> metadataModel view \<longrightarrow>
            s1 = s\<lparr>unsureSensors :=
                     emplace (unsureSensors s) (metadataMake view, metadataModel view)
                       (imagePath view, datasheet)\<rparr>
            \<and> unsureSensors s1 (metadataMake view, metadataModel view) =
                (case unsureSensors s (metadataMake view, metadataModel view) of
                   None \<Rightarrow> Some (imagePath view, datasheet)
                 | Some first \<Rightarrow> Some first))
       \<and> (d_sensorSize datasheet \<noteq> Finite (- 1) \<longrightarrow>
            sensorWidth (fst (estimateFromFocal35mm view r1 s1)) = d_sensorSize datasheet)"
  using assms
  by (auto simp: lookupSensorWidth_def estimateFromFocal35mm_def emplace_def Let_def
           split: option.splits)

theorem sensor_lookup_witness:
  "lookupSensorWidth (getInfo exampleExt) exampleDatabase (exampleCanonView ''/data/a.jpg'' ''EOS 5D'')
      \<lparr>sensorWidth = Finite (- 1), focalLength = Finite 50, intrinsicInitMode = SET_FROM_DEFAULT_FOV\<rparr>
      (initialShared Map.empty)
     = (\<lparr>sensorWidth = Finite 36, focalLength = Finite 50, intrinsicInitMode = COMPUTED_FROM_METADATA\<rparr>,
        initialShared Map.empty)
   \<and> lookupSensorWidth (getInfo exampleExt) exampleDatabase
        (exampleCanonView ''/data/b.jpg'' ''Canon EOS 5D'')
        \<lparr>sensorWidth = Finite (- 1), focalLength = Finite 50, intrinsicInitMode = SET_FROM_DEFAULT_FOV\<rparr>
        (initialShared Map.empty)
     = (\<lparr>sensorWidth = Finite 36, focalLength = Finite 50, intrinsicInitMode = COMPUTED_FROM_METADATA\<rparr>,
        (initialShared Map.empty)
          \<lparr>unsureSensors := [(''Canon'', ''Canon EOS 5D'') \<mapsto>
              (''/data/b.jpg'', \<lparr>d_brand = ''Canon'', d_model = ''EOS 5D'', d_sensorSize = Finite 36\<rparr>)]\<rparr>)"
proof -
  have meta: "hasCameraMetadata (exampleCanonView p m)" for p m
    by (simp add: hasCameraMetadata_def exampleCanonView_simps)
  have found': "getInfo exampleExt ''Canon'' m exampleDatabase
               = Some \<lparr>d_brand = ''Canon'', d_model = ''EOS 5D'', d_sensorSize = Finite 36\<rparr>" for m
    by (simp add: exampleExt_def exampleDatabase_def)
  have found: "getInfo exampleExt (metadataMake (exampleCanonView p m))
                 (metadataModel (exampleCanonView p m)) exampleDatabase
               = Some \<lparr>d_brand = ''Canon'', d_model = ''EOS 5D'', d_sensorSize = Finite 36\<rparr>" for p m
    by (simp add: exampleExt_def exampleDatabase_def exampleCanonView_simps)
  have exact: "lookupSensorWidth (getInfo exampleExt) exampleDatabase (exampleCanonView ''/data/a.jpg'' ''EOS 5D'')
      \<lparr>sensorWidth = Finite (- 1), focalLength = Finite 50, intrinsicInitMode = SET_FROM_DEFAULT_FOV\<rparr>
      (initialShared Map.empty)
     = (\<lparr>sensorWidth = Finite 36, focalLength = Finite 50, intrinsicInitMode = COMPUTED_FROM_METADATA\<rparr>,
        initialShared Map.empty)"
    using sensor_lookup [where gi = "getInfo exampleExt" and sensorDatabase = exampleDatabase
        and view = "exampleCanonView ''/data/a.jpg'' ''EOS 5D''"
        and r = "\<lparr>sensorWidth = Finite (- 1), focalLength = Finite 50, intrinsicInitMode = SET_FROM_DEFAULT_FOV\<rparr>"
        and s = "initialShared Map.empty", OF meta found prod.collapse [symmetric]]
    by (simp add: lookupSensorWidth_def meta found' exampleCanonView_simps)
  have fuzzy: "lookupSensorWidth (getInfo exampleExt) exampleDatabase
        (exampleCanonView ''/data/b.jpg'' ''Canon EOS 5D'')
        \<lparr>sensorWidth = Finite (- 1), focalLength = Finite 50, intrinsicInitMode = SET_FROM_DEFAULT_FOV\<rparr>
        (initialShared Map.empty)
     = (\<lparr>sensorWidth = Finite 36, focalLength = Finite 50, intrinsicInitMode = COMPUTED_FROM_METADATA\<rparr>,
        (initialShared Map.empty)
          \<lparr>unsureSensors := [(''Canon'', ''Canon EOS 5D'') \<mapsto>
              (''/data/b.jpg'', \<lparr>d_brand = ''Canon'', d_model = ''EOS 5D'', d_sensorSize = Finite 36\<rparr>)]\<rparr>)"
    using sensor_lookup [where gi = "getInfo exampleExt" and sensorDatabase = exampleDatabase
        and view = "exampleCanonView ''/data/b.jpg'' ''Canon EOS 5D''"
        and r = "\<lparr>sensorWidth = Finite (- 1), focalLength = Finite 50, intrinsicInitMode = SET_FROM_DEFAULT_FOV\<rparr>"
        and s = "initialShared Map.empty", OF meta found prod.collapse [symmetric]]
    by (simp add: lookupSensorWidth_def meta found' exampleCanonView_simps emplace_def initialShared_def)
  from exact fuzzy show ?thesis by simp
qed

section \<open>Evaluating the pass on views with camera metadata\<close>

lemma detectRig_data_a: "imagePath v = ''/data/a.jpg'' \<Longrightarrow> detectRig h v s = (v, s)"
  by (simp add: detectRig_def path_eval)

lemma detectRig_data_b: "imagePath v = ''/data/b.jpg'' \<Longrightarrow> detectRig h v s = (v, s)"
  by (simp add: detectRig_def path_eval)

lemma resolveSensorWidth_canon:
  "resolveSensorWidth (exampleExt\<lparr>rand := rnd\<rparr>) exampleDatabase (exampleCanonView p m) s =
     (\<lparr>sensorWidth = Finite 36, focalLength = Finite 50, intrinsicInitMode = ESTIMATED_FROM_METADATA\<rparr>,
      s\<lparr>unsureSensors :=
           (if m = ''EOS 5D'' then unsureSensors s
            else emplace (unsureSensors s) (''Canon'', m)
                   (p, \<lparr>d_brand = ''Canon'', d_model = ''EOS 5D'', d_sensorSize = Finite 36\<rparr>)),
        intrinsicsSetFromFocal35mm := emplace (intrinsicsSetFromFocal35mm s) p (Finite 36, Finite 50)\<rparr>)"
  by (simp add: resolveSensorWidth_def lookupSensorWidth_def estimateFromFocal35mm_def
      hasCameraMetadata_def exampleCanonView_simps exampleExt_def exampleDatabase_def)

lemma buildIntrinsic_canon:
  "buildIntrinsic (exampleExt\<lparr>rand := rnd\<rparr>) (exampleOptions\<lparr>groupCameraModel := g\<rparr>) (Finite (- 1), Finite (- 1), Finite (- 1))
     (exampleCanonView p m)
     \<lparr>sensorWidth = Finite 36, focalLength = Finite 50, intrinsicInitMode = ESTIMATED_FROM_METADATA\<rparr> s
   = Inr ((exampleCanonView p m)\<lparr>intrinsicId := (if g = 0 then of_nat (rnd (randCalls s)) else 0)\<rparr>,
          s\<lparr>completeViewCount := completeViewCount s + 1,
            randCalls := (if g = 0 then randCalls s + 1 else randCalls s),
            intrinsics := emplace (intrinsics s) (if g = 0 then of_nat (rnd (randCalls s)) else 0)
                            exampleCanonIntrinsic\<rparr>)"
  by (simp add: buildIntrinsic_def overrideSerialNumber_def hasCameraMetadata_def Let_def
      exampleCanonView_simps exampleExt_def exampleOptions_def exampleCanonIntrinsic_def)

lemma processView_canon:
  assumes "imagePath (exampleCanonView p m) = ''/data/a.jpg''
           \<or> imagePath (exampleCanonView p m) = ''/data/b.jpg''"
  shows "processView (exampleExt\<lparr>rand := rnd\<rparr>) (exampleOptions\<lparr>groupCameraModel := g\<rparr>)
           (Finite (- 1), Finite (- 1), Finite (- 1)) exampleDatabase (exampleCanonView p m) s
         = Inr ((exampleCanonView p m)
                  \<lparr>intrinsicId := (if g = 0 then of_nat (rnd (randCalls s)) else 0)\<rparr>,
                s\<lparr>unsureSensors :=
                     (if m = ''EOS 5D'' then unsureSensors s
                      else emplace (unsureSensors s) (''Canon'', m)
                        (p, \<lparr>d_brand = ''Canon'', d_model = ''EOS 5D'', d_sensorSize = Finite 36\<rparr>)),
                  intrinsicsSetFromFocal35mm := emplace (intrinsicsSetFromFocal35mm s) p (Finite 36, Finite 50),
                  completeViewCount := completeViewCount s + 1,
                  randCalls := (if g = 0 then randCalls s + 1 else randCalls s),
                  intrinsics := emplace (intrinsics s)
                                  (if g = 0 then of_nat (rnd (randCalls s)) else 0)
                                  exampleCanonIntrinsic\<rparr>)"
proof -
  have "detectRig (hashString (exampleExt\<lparr>rand := rnd\<rparr>)) (exampleCanonView p m) s
          = (exampleCanonView p m, s)"
    using assms detectRig_data_a detectRig_data_b by blast
  moreover have "\<not> alreadyInitialized (exampleCanonView p m) s"
    by (simp add: alreadyInitialized_def exampleCanonView_simps)
  ultimately show ?thesis
    by (simp add: processView_def resolveSensorWidth_canon buildIntrinsic_canon)
qed

lemma exampleExt_rand: "exampleExt\<lparr>rand := \<lambda>n. 7\<rparr> = exampleExt"
  by (simp add: exampleExt_def)

lemma exampleOptions_group: "exampleOptions\<lparr>groupCameraModel := 2\<rparr> = exampleOptions"
  by (simp add: exampleOptions_def)

lemma resolveSensorWidth_Save:
  "resolveSensorWidth (e\<lparr>Save := sv\<rparr>) db view s = resolveSensorWidth e db view s"
  by (simp add: resolveSensorWidth_def)

lemma buildIntrinsic_Save:
  "buildIntrinsic (e\<lparr>Save := sv\<rparr>) opts defaults view r s = buildIntrinsic e opts defaults view r s"
  by (cases defaults) (simp add: buildIntrinsic_def Let_def)

lemma processView_Save:
  "processView (e\<lparr>Save := sv\<rparr>) opts defaults db view s = processView e opts defaults db view s"
  by (auto simp: processView_def resolveSensorWidth_Save buildIntrinsic_Save Let_def
           split: prod.splits)

lemma processViews_Save:
  "processViews (e\<lparr>Save := sv\<rparr>) opts defaults db views s = processViews e opts defaults db views s"
  by (induction views arbitrary: s) (simp_all add: processView_Save split: sum.splits)

lemma processViews_canon_pair:
  assumes "p = ''/data/a.jpg'' \<or> p = ''/data/b.jpg''" "q = ''/data/a.jpg'' \<or> q = ''/data/b.jpg''"
  shows "processViews (exampleExt\<lparr>rand := rnd\<rparr>) (exampleOptions\<lparr>groupCameraModel := g\<rparr>)
           (Finite (- 1), Finite (- 1), Finite (- 1)) exampleDatabase [exampleCanonView p m, exampleCanonView q m]
           (initialShared Map.empty)
         = Inr ([(exampleCanonView p m)\<lparr>intrinsicId := (if g = 0 then of_nat (rnd 0) else 0)\<rparr>,
                 (exampleCanonView q m)\<lparr>intrinsicId := (if g = 0 then of_nat (rnd 1) else 0)\<rparr>],
                (initialShared Map.empty)
                  \<lparr>unsureSensors :=
                     (if m = ''EOS 5D'' then Map.empty
                      else [(''Canon'', m) \<mapsto>
                             (p, \<lparr>d_brand = ''Canon'', d_model = ''EOS 5D'', d_sensorSize = Finite 36\<rparr>)]),
                   intrinsicsSetFromFocal35mm := [p \<mapsto> (Finite 36, Finite 50), q \<mapsto> (Finite 36, Finite 50)],
                   completeViewCount := 2,
                   randCalls := (if g = 0 then 2 else 0),
                   intrinsics :=
                     (if g = 0
                      then emplace [of_nat (rnd 0) \<mapsto> exampleCanonIntrinsic] (of_nat (rnd 1))
                             exampleCanonIntrinsic
                      else [0 \<mapsto> exampleCanonIntrinsic])\<rparr>)"
proof -
  have p: "imagePath (exampleCanonView p m) = ''/data/a.jpg''
           \<or> imagePath (exampleCanonView p m) = ''/data/b.jpg''"
    using assms(1) by (simp add: exampleCanonView_simps)
  have q: "imagePath (exampleCanonView q m) = ''/data/a.jpg''
           \<or> imagePath (exampleCanonView q m) = ''/data/b.jpg''"
    using assms(2) by (simp add: exampleCanonView_simps)
  show ?thesis
    by (simp add: processView_canon [OF p] processView_canon [OF q])
       (auto simp: emplace_def initialShared_def fun_upd_twist)
qed

lemma processViews_exampleCanonPair:
  "processViews exampleExt exampleOptions (Finite (- 1), Finite (- 1), Finite (- 1)) exampleDatabase exampleCanonPair
     (initialShared Map.empty)
   = Inr ([(exampleCanonView ''/data/a.jpg'' ''EOS 5D'')\<lparr>intrinsicId := 0\<rparr>,
           (exampleCanonView ''/data/b.jpg'' ''EOS 5D'')\<lparr>intrinsicId := 0\<rparr>],
          exampleCanonState)"
proof -
  have "processViews (exampleExt\<lparr>rand := \<lambda>n. 7\<rparr>) (exampleOptions\<lparr>groupCameraModel := 2\<rparr>)
          (Finite (- 1), Finite (- 1), Finite (- 1)) exampleDatabase exampleCanonPair (initialShared Map.empty)
        = Inr ([(exampleCanonView ''/data/a.jpg'' ''EOS 5D'')\<lparr>intrinsicId := 0\<rparr>,
                (exampleCanonView ''/data/b.jpg'' ''EOS 5D'')\<lparr>intrinsicId := 0\<rparr>],
               exampleCanonState)"
    unfolding exampleCanonPair_def
    by (subst processViews_canon_pair) (simp_all add: exampleCanonState_def initialShared_def)
  then show ?thesis
    by (simp only: exampleExt_rand exampleOptions_group)
qed

section \<open>The 35mm step on values that are already known\<close>

text \<open>
  Claim C2 does not hold of the code. Lines 472 and 473 are after the two branches, not
  in them: for a view with the 35mm value whose sensor width (36, from the datasheet)
  and focal length (50) are both known, the two values stay, but the mode
  \<open>COMPUTED_FROM_METADATA\<close> that line 443 set becomes \<open>ESTIMATED_FROM_METADATA\<close> and
  the view is entered in \<open>intrinsicsSetFromFocal35mm\<close>. The intrinsic that the
  iteration builds for it carries that mode.
\<close>

theorem focal35mm_marks_known_values_estimated:
  "estimateFromFocal35mm (exampleCanonView ''/data/a.jpg'' ''EOS 5D'')
      \<lparr>sensorWidth = Finite 36, focalLength = Finite 50, intrinsicInitMode = COMPUTED_FROM_METADATA\<rparr>
      (initialShared Map.empty)
     = (\<lparr>sensorWidth = Finite 36, focalLength = Finite 50, intrinsicInitMode = ESTIMATED_FROM_METADATA\<rparr>,
        (initialShared Map.empty)\<lparr>intrinsicsSetFromFocal35mm := [''/data/a.jpg'' \<mapsto> (Finite 36, Finite 50)]\<rparr>)
   \<and> (case processView exampleExt exampleOptions (Finite (- 1), Finite (- 1), Finite (- 1)) exampleDatabase
             (exampleCanonView ''/data/a.jpg'' ''EOS 5D'') (initialShared Map.empty) of
         Inl err \<Rightarrow> None
       | Inr (view', s') \<Rightarrow> map_option initializationMode (intrinsics s' (intrinsicId view')))
     = Some ESTIMATED_FROM_METADATA"
proof
  show "estimateFromFocal35mm (exampleCanonView ''/data/a.jpg'' ''EOS 5D'')
      \<lparr>sensorWidth = Finite 36, focalLength = Finite 50, intrinsicInitMode = COMPUTED_FROM_METADATA\<rparr>
      (initialShared Map.empty)
     = (\<lparr>sensorWidth = Finite 36, focalLength = Finite 50, intrinsicInitMode = ESTIMATED_FROM_METADATA\<rparr>,
        (initialShared Map.empty)\<lparr>intrinsicsSetFromFocal35mm := [''/data/a.jpg'' \<mapsto> (Finite 36, Finite 50)]\<rparr>)"
    by (simp add: estimateFromFocal35mm_def exampleCanonView_simps emplace_def initialShared_def)
  have "processView (exampleExt\<lparr>rand := \<lambda>n. 7\<rparr>) (exampleOptions\<lparr>groupCameraModel := 2\<rparr>)
          (Finite (- 1), Finite (- 1), Finite (- 1)) exampleDatabase (exampleCanonView ''/data/a.jpg'' ''EOS 5D'')
          (initialShared Map.empty)
        = Inr ((exampleCanonView ''/data/a.jpg'' ''EOS 5D'')\<lparr>intrinsicId := 0\<rparr>,
               (initialShared Map.empty)
                 \<lparr>intrinsicsSetFromFocal35mm := [''/data/a.jpg'' \<mapsto> (Finite 36, Finite 50)],
                  completeViewCount := 1, intrinsics := [0 \<mapsto> exampleCanonIntrinsic]\<rparr>)"
    by (simp add: processView_canon exampleCanonView_simps emplace_def initialShared_def)
  then show "(case processView exampleExt exampleOptions (Finite (- 1), Finite (- 1), Finite (- 1)) exampleDatabase
             (exampleCanonView ''/data/a.jpg'' ''EOS 5D'') (initialShared Map.empty) of
         Inl err \<Rightarrow> None
       | Inr (view', s') \<Rightarrow> map_option initializationMode (intrinsics s' (intrinsicId view')))
     = Some ESTIMATED_FROM_METADATA"
    by (simp add: exampleExt_rand exampleOptions_group exampleCanonIntrinsic_def)
qed

section \<open>The build step and the pinhole cast\<close>

text \<open>
  The build step of lines 500 to 544 has one way to go wrong: the intrinsic that
  \<^verbatim>\<open>getViewIntrinsic\<close> returns is not a pinhole, and the call at line 505 goes through
  the null pointer that the cast gave. Whether that can happen is decided by
  \<^verbatim>\<open>getViewIntrinsic\<close>, outside the sources.
\<close>

lemma buildIntrinsic_null_dereference:
  "buildIntrinsic e opts (f, ppx, ppy) view r s = Inl err \<longleftrightarrow>
     err = NullPointerDereference
     \<and> \<not> isPinhole (getViewIntrinsic e view (focalLength r) (sensorWidth r) f
                        (defaultFieldOfView opts) (defaultCameraModel opts) ppx ppy)"
  by (auto simp: buildIntrinsic_def Let_def)

section \<open>Grouping mode 0\<close>

lemma detectRig_keeps:
  "intrinsicId (fst (detectRig h view s)) = intrinsicId view"
  "intrinsics (snd (detectRig h view s)) = intrinsics s"
  "randCalls (snd (detectRig h view s)) = randCalls s"
  by (simp_all add: detectRig_def Let_def split: sum.splits)

lemma alreadyInitialized_detectRig:
  "alreadyInitialized (fst (detectRig h view s)) (snd (detectRig h view s)) = alreadyInitialized view s"
  by (simp add: alreadyInitialized_def detectRig_keeps)

lemma randCalls_resolveSensorWidth:
  "randCalls (snd (resolveSensorWidth e db view s)) = randCalls s"
  by (simp add: resolveSensorWidth_def lookupSensorWidth_def estimateFromFocal35mm_def Let_def
           split: option.splits prod.splits)

lemma randCalls_recordMissingSensor: "randCalls (recordMissingSensor view s) = randCalls s"
  by (simp add: recordMissingSensor_def)

lemma buildIntrinsic_never_share:
  assumes "groupCameraModel opts = 0"
    and "buildIntrinsic e opts defaults view r s = Inr (view', s')"
  shows "intrinsicId view' = of_nat (rand e (randCalls s)) \<and> randCalls s' = randCalls s + 1"
  using assms
  by (cases defaults) (auto simp: buildIntrinsic_def Let_def split: if_splits)

text \<open>
  Claim C6, as amended. With grouping mode 0, an iteration that runs to its end gives
  the view
  \<^item> the result of its own call of \<^verbatim>\<open>std::rand\<close> (the call number \<open>randCalls s\<close>, after
    which the count is one more) when the view reaches the build step, whatever its
    metadata and resolved parameters are;
  \<^item> the identity it had when its intrinsic is already initialised;
  \<^item> the undefined identity when it leaves without sensor width under
    \<^verbatim>\<open>allowIncompleteOutput\<close>.
  Two views that reach the build step have different identities exactly when the two
  calls returned different values.
\<close>

theorem never_share_identity:
  assumes "groupCameraModel opts = 0"
    and "processView e opts defaults sensorDatabase view s = Inr (view', s')"
  shows "(reachesBuild e opts sensorDatabase view s \<longrightarrow>
            intrinsicId view' = of_nat (rand e (randCalls s)) \<and> randCalls s' = randCalls s + 1)
       \<and> (alreadyInitialized view s \<longrightarrow>
            intrinsicId view' = intrinsicId view \<and> randCalls s' = randCalls s)
       \<and> (\<not> alreadyInitialized view s \<and> \<not> reachesBuild e opts sensorDatabase view s \<longrightarrow>
            intrinsicId view' = UndefinedIndexT \<and> randCalls s' = randCalls s)
       \<and> (\<forall>view2 s2 view2' s2'.
             reachesBuild e opts sensorDatabase view s
             \<and> reachesBuild e opts sensorDatabase view2 s2
             \<and> processView e opts defaults sensorDatabase view2 s2 = Inr (view2', s2') \<longrightarrow>
             (intrinsicId view' \<noteq> intrinsicId view2' \<longleftrightarrow>
                (of_nat (rand e (randCalls s)) :: IndexT) \<noteq> of_nat (rand e (randCalls s2))))"
proof -
  have step: "(reachesBuild e opts sensorDatabase v t \<longrightarrow>
            intrinsicId v' = of_nat (rand e (randCalls t)) \<and> randCalls t' = randCalls t + 1)
       \<and> (alreadyInitialized v t \<longrightarrow> intrinsicId v' = intrinsicId v \<and> randCalls t' = randCalls t)
       \<and> (\<not> alreadyInitialized v t \<and> \<not> reachesBuild e opts sensorDatabase v t \<longrightarrow>
            intrinsicId v' = UndefinedIndexT \<and> randCalls t' = randCalls t)"
    if run: "processView e opts defaults sensorDatabase v t = Inr (v', t')" for v t v' t'
  proof -
    obtain v1 t1 where d: "detectRig (hashString e) v t = (v1, t1)"
      by (cases "detectRig (hashString e) v t")
    obtain r2 t2 where f: "resolveSensorWidth e sensorDatabase v1 t1 = (r2, t2)"
      by (cases "resolveSensorWidth e sensorDatabase v1 t1")
    have keep: "intrinsicId v1 = intrinsicId v" "randCalls t1 = randCalls t"
      "alreadyInitialized v1 t1 = alreadyInitialized v t"
      using d detectRig_keeps [of "hashString e" v t] alreadyInitialized_detectRig [of "hashString e" v t]
      by simp_all
    have t2: "randCalls t2 = randCalls t1"
      using randCalls_resolveSensorWidth [of e sensorDatabase v1 t1] f by simp
    have reach: "reachesBuild e opts sensorDatabase v t \<longleftrightarrow>
                   \<not> alreadyInitialized v t \<and> \<not> (sensorWidth r2 = Finite (- 1) \<and> allowIncompleteOutput opts)"
      using d f keep by (simp add: reachesBuild_def)
    show ?thesis
    proof (cases "alreadyInitialized v t")
      case True
      then show ?thesis
        using run d keep reach by (auto simp: processView_def)
    next
      case False
      show ?thesis
      proof (cases "sensorWidth r2 = Finite (- 1) \<and> allowIncompleteOutput opts")
        case True
        then show ?thesis
          using run d f keep t2 reach False
          by (auto simp: processView_def randCalls_recordMissingSensor)
      next
        case no_exit: False
        then have "buildIntrinsic e opts defaults v1 r2
                     (if sensorWidth r2 = Finite (- 1) then recordMissingSensor v1 t2 else t2) = Inr (v', t')"
          using run d f keep False by (auto simp: processView_def Let_def)
        from buildIntrinsic_never_share [OF assms(1) this]
        show ?thesis
          using keep t2 reach False no_exit by (auto simp: randCalls_recordMissingSensor)
      qed
    qed
  qed
  note first = step [OF assms(2)]
  have pair: "\<forall>view2 s2 view2' s2'.
             reachesBuild e opts sensorDatabase view s
             \<and> reachesBuild e opts sensorDatabase view2 s2
             \<and> processView e opts defaults sensorDatabase view2 s2 = Inr (view2', s2') \<longrightarrow>
             (intrinsicId view' \<noteq> intrinsicId view2' \<longleftrightarrow>
                (of_nat (rand e (randCalls s)) :: IndexT) \<noteq> of_nat (rand e (randCalls s2)))"
  proof (intro allI impI)
    fix view2 s2 view2' s2'
    assume a: "reachesBuild e opts sensorDatabase view s
             \<and> reachesBuild e opts sensorDatabase view2 s2
             \<and> processView e opts defaults sensorDatabase view2 s2 = Inr (view2', s2')"
    then have "intrinsicId view2' = of_nat (rand e (randCalls s2))"
      using step [of view2 s2 view2' s2'] by simp
    moreover have "intrinsicId view' = of_nat (rand e (randCalls s))"
      using first a by simp
    ultimately show "intrinsicId view' \<noteq> intrinsicId view2' \<longleftrightarrow>
                (of_nat (rand e (randCalls s)) :: IndexT) \<noteq> of_nat (rand e (randCalls s2))"
      by simp
  qed
  from first pair show ?thesis by (intro conjI) simp_all
qed

text \<open>
  An instance with a generator that returns 1, 2, ...: two views with the same metadata
  get the identities 1 and 2.
\<close>

theorem never_share_identity_witness:
  "reachesBuild (exampleExt\<lparr>rand := Suc\<rparr>) (exampleOptions\<lparr>groupCameraModel := 0\<rparr>) exampleDatabase
     (exampleCanonView ''/data/a.jpg'' ''EOS 5D'') (initialShared Map.empty)
   \<and> intrinsicId ((exampleCanonView ''/data/a.jpg'' ''EOS 5D'')\<lparr>intrinsicId := 1\<rparr>)
       = of_nat (rand (exampleExt\<lparr>rand := Suc\<rparr>) (randCalls (initialShared Map.empty)))
   \<and> assignedIds (processViews (exampleExt\<lparr>rand := Suc\<rparr>) (exampleOptions\<lparr>groupCameraModel := 0\<rparr>)
        (Finite (- 1), Finite (- 1), Finite (- 1)) exampleDatabase
        [exampleCanonView ''/data/a.jpg'' ''EOS 5D'', exampleCanonView ''/data/b.jpg'' ''EOS 5D'']
        (initialShared Map.empty)) = [1, 2]"
proof -
  have mode: "groupCameraModel (exampleOptions\<lparr>groupCameraModel := 0\<rparr>) = 0"
    by simp
  have a: "imagePath (exampleCanonView ''/data/a.jpg'' ''EOS 5D'') = ''/data/a.jpg''
           \<or> imagePath (exampleCanonView ''/data/a.jpg'' ''EOS 5D'') = ''/data/b.jpg''"
    by (simp add: exampleCanonView_simps)
  have run: "processView (exampleExt\<lparr>rand := Suc\<rparr>) (exampleOptions\<lparr>groupCameraModel := 0\<rparr>)
               (Finite (- 1), Finite (- 1), Finite (- 1)) exampleDatabase (exampleCanonView ''/data/a.jpg'' ''EOS 5D'')
               (initialShared Map.empty)
             = Inr ((exampleCanonView ''/data/a.jpg'' ''EOS 5D'')\<lparr>intrinsicId := 1\<rparr>,
                    (initialShared Map.empty)
                      \<lparr>unsureSensors := Map.empty,
                       intrinsicsSetFromFocal35mm := [''/data/a.jpg'' \<mapsto> (Finite 36, Finite 50)],
                       completeViewCount := 1, randCalls := 1,
                       intrinsics := [1 \<mapsto> exampleCanonIntrinsic]\<rparr>)"
    by (simp add: processView_canon [OF a] emplace_def initialShared_def)
  have reach: "reachesBuild (exampleExt\<lparr>rand := Suc\<rparr>) (exampleOptions\<lparr>groupCameraModel := 0\<rparr>)
                 exampleDatabase (exampleCanonView ''/data/a.jpg'' ''EOS 5D'') (initialShared Map.empty)"
    by (simp add: reachesBuild_def detectRig_data_a resolveSensorWidth_canon alreadyInitialized_def
          exampleCanonView_simps)
  have pair: "assignedIds (processViews (exampleExt\<lparr>rand := Suc\<rparr>)
        (exampleOptions\<lparr>groupCameraModel := 0\<rparr>) (Finite (- 1), Finite (- 1), Finite (- 1)) exampleDatabase
        [exampleCanonView ''/data/a.jpg'' ''EOS 5D'', exampleCanonView ''/data/b.jpg'' ''EOS 5D'']
        (initialShared Map.empty)) = [1, 2]"
    by (simp add: processViews_canon_pair assignedIds_def del: processViews.simps)
  from never_share_identity [OF mode run] reach pair show ?thesis
    by blast
qed

text \<open>
  Claim C6 as stated fails: two different views share an identity in mode 0 when the
  generator returns the same value twice, which nothing in \<^verbatim>\<open>std::rand\<close> excludes,
  and when both already refer to one initialised intrinsic (here the identity 5), which
  the pass keeps.
\<close>

theorem never_share_identity_counterexample:
  "exampleCanonView ''/data/a.jpg'' ''EOS 5D'' \<noteq> exampleCanonView ''/data/b.jpg'' ''EOS 5D''
   \<and> assignedIds (processViews exampleExt (exampleOptions\<lparr>groupCameraModel := 0\<rparr>)
        (Finite (- 1), Finite (- 1), Finite (- 1)) exampleDatabase
        [exampleCanonView ''/data/a.jpg'' ''EOS 5D'', exampleCanonView ''/data/b.jpg'' ''EOS 5D'']
        (initialShared Map.empty)) = [7, 7]
   \<and> assignedIds (processViews exampleExt (exampleOptions\<lparr>groupCameraModel := 0\<rparr>)
        (Finite (- 1), Finite (- 1), Finite (- 1)) exampleDatabase
        [(exampleCanonView ''/data/a.jpg'' ''EOS 5D'')\<lparr>intrinsicId := 5\<rparr>,
         (exampleCanonView ''/data/b.jpg'' ''EOS 5D'')\<lparr>intrinsicId := 5\<rparr>]
        (initialShared [5 \<mapsto> exampleCanonIntrinsic])) = [5, 5]"
proof (intro conjI)
  show "exampleCanonView ''/data/a.jpg'' ''EOS 5D'' \<noteq> exampleCanonView ''/data/b.jpg'' ''EOS 5D''"
    by (simp add: exampleCanonView_def)
  have "assignedIds (processViews (exampleExt\<lparr>rand := \<lambda>n. 7\<rparr>)
        (exampleOptions\<lparr>groupCameraModel := 0\<rparr>) (Finite (- 1), Finite (- 1), Finite (- 1)) exampleDatabase
        [exampleCanonView ''/data/a.jpg'' ''EOS 5D'', exampleCanonView ''/data/b.jpg'' ''EOS 5D'']
        (initialShared Map.empty)) = [7, 7]"
    by (simp add: processViews_canon_pair assignedIds_def del: processViews.simps)
  then show "assignedIds (processViews exampleExt (exampleOptions\<lparr>groupCameraModel := 0\<rparr>)
        (Finite (- 1), Finite (- 1), Finite (- 1)) exampleDatabase
        [exampleCanonView ''/data/a.jpg'' ''EOS 5D'', exampleCanonView ''/data/b.jpg'' ''EOS 5D'']
        (initialShared Map.empty)) = [7, 7]"
    by (simp only: exampleExt_rand)
  have old: "processView exampleExt (exampleOptions\<lparr>groupCameraModel := 0\<rparr>) (Finite (- 1), Finite (- 1), Finite (- 1))
               exampleDatabase ((exampleCanonView p ''EOS 5D'')\<lparr>intrinsicId := 5\<rparr>) s
             = Inr ((exampleCanonView p ''EOS 5D'')\<lparr>intrinsicId := 5\<rparr>,
                    s\<lparr>completeViewCount := completeViewCount s + 1\<rparr>)"
    if "p = ''/data/a.jpg'' \<or> p = ''/data/b.jpg''" "intrinsics s 5 = Some exampleCanonIntrinsic"
    for p s
  proof -
    have "detectRig (hashString exampleExt) ((exampleCanonView p ''EOS 5D'')\<lparr>intrinsicId := 5\<rparr>) s
            = ((exampleCanonView p ''EOS 5D'')\<lparr>intrinsicId := 5\<rparr>, s)"
      using that(1) detectRig_data_a detectRig_data_b by (auto simp: exampleCanonView_simps)
    moreover have "alreadyInitialized ((exampleCanonView p ''EOS 5D'')\<lparr>intrinsicId := 5\<rparr>) s"
      using that(2) by (simp add: alreadyInitialized_def UndefinedIndexT_def exampleCanonIntrinsic_def)
    ultimately show ?thesis
      by (simp add: processView_def)
  qed
  show "assignedIds (processViews exampleExt (exampleOptions\<lparr>groupCameraModel := 0\<rparr>)
        (Finite (- 1), Finite (- 1), Finite (- 1)) exampleDatabase
        [(exampleCanonView ''/data/a.jpg'' ''EOS 5D'')\<lparr>intrinsicId := 5\<rparr>,
         (exampleCanonView ''/data/b.jpg'' ''EOS 5D'')\<lparr>intrinsicId := 5\<rparr>]
        (initialShared [5 \<mapsto> exampleCanonIntrinsic])) = [5, 5]"
    by (simp add: old initialShared_def assignedIds_def)
qed

section \<open>The order of the iterations\<close>

text \<open>
  Claim C9 does not hold of the code. The writes at lines 438 and 472 are in no
  critical section, which is a property of the concurrent execution and outside this
  model; what the model shows is that the diagnostics depend on the order in which the
  iterations run even when none overlap. Two views of the same camera whose model
  differs from the datasheet's: the unsure sensor entry stores the image of the view
  whose iteration ran first.
\<close>

theorem unsure_diagnostic_depends_on_order:
  "firstUnsureImage
     (processViews exampleExt exampleOptions (Finite (- 1), Finite (- 1), Finite (- 1)) exampleDatabase
        [exampleCanonView ''/data/a.jpg'' ''Canon EOS 5D'',
         exampleCanonView ''/data/b.jpg'' ''Canon EOS 5D''] (initialShared Map.empty))
     (''Canon'', ''Canon EOS 5D'') = Some ''/data/a.jpg''
   \<and> firstUnsureImage
     (processViews exampleExt exampleOptions (Finite (- 1), Finite (- 1), Finite (- 1)) exampleDatabase
        [exampleCanonView ''/data/b.jpg'' ''Canon EOS 5D'',
         exampleCanonView ''/data/a.jpg'' ''Canon EOS 5D''] (initialShared Map.empty))
     (''Canon'', ''Canon EOS 5D'') = Some ''/data/b.jpg''"
proof -
  have "firstUnsureImage
     (processViews (exampleExt\<lparr>rand := \<lambda>n. 7\<rparr>) (exampleOptions\<lparr>groupCameraModel := 2\<rparr>)
        (Finite (- 1), Finite (- 1), Finite (- 1)) exampleDatabase
        [exampleCanonView ''/data/a.jpg'' ''Canon EOS 5D'',
         exampleCanonView ''/data/b.jpg'' ''Canon EOS 5D''] (initialShared Map.empty))
     (''Canon'', ''Canon EOS 5D'') = Some ''/data/a.jpg''
   \<and> firstUnsureImage
     (processViews (exampleExt\<lparr>rand := \<lambda>n. 7\<rparr>) (exampleOptions\<lparr>groupCameraModel := 2\<rparr>)
        (Finite (- 1), Finite (- 1), Finite (- 1)) exampleDatabase
        [exampleCanonView ''/data/b.jpg'' ''Canon EOS 5D'',
         exampleCanonView ''/data/a.jpg'' ''Canon EOS 5D''] (initialShared Map.empty))
     (''Canon'', ''Canon EOS 5D'') = Some ''/data/b.jpg''"
    by (simp add: processViews_canon_pair firstUnsureImage_def del: processViews.simps)
  then show ?thesis
    by (simp only: exampleExt_rand exampleOptions_group)
qed

section \<open>The decision after the pass\<close>

text \<open>
  Claim C8, as amended. After a pass that ran to its end and a successful rig
  validation, the run ends with a failure before anything is saved exactly when there
  are unknown sensors and incomplete output is not allowed, or the number of complete
  views is below the minimum (1 with \<^verbatim>\<open>allowSingleView\<close>, 2 without) and incomplete
  output is not allowed. Otherwise the views, intrinsics and rigs are handed to
  \<^verbatim>\<open>Save\<close>, and the run succeeds when \<^verbatim>\<open>Save\<close> does and fails when it does not.
\<close>

theorem final_decision:
  assumes "checkIntrinsicOptions opts = Inr defaults"
    and "views \<noteq> []"
    and "processViews e opts defaults sensorDatabase views (initialShared intrinsics0) = Inr (views', s)"
    and "createRigs (detectedRigs s) rigs0 = Inr rigs"
  shows "cameraInit e opts sensorDatabase views intrinsics0 rigs0 = finish e opts views' s rigs
       \<and> ((\<exists>err. finish e opts views' s rigs = Inl err \<and> err \<noteq> SaveFailed) \<longleftrightarrow>
            (dom (unknownSensors s) \<noteq> {} \<and> \<not> allowIncompleteOutput opts)
            \<or> (completeViewCount s < (if allowSingleView opts then 1 else 2)
                \<and> \<not> allowIncompleteOutput opts))
       \<and> (\<not> ((dom (unknownSensors s) \<noteq> {} \<and> \<not> allowIncompleteOutput opts)
               \<or> (completeViewCount s < (if allowSingleView opts then 1 else 2)
                   \<and> \<not> allowIncompleteOutput opts)) \<longrightarrow>
            finish e opts views' s rigs =
              (if Save e views' (intrinsics s) rigs then Inr (views', intrinsics s, rigs)
               else Inl SaveFailed))"
proof (intro conjI)
  show "cameraInit e opts sensorDatabase views intrinsics0 rigs0 = finish e opts views' s rigs"
    using assms by (simp add: cameraInit_def)
  have req: "requiredViewsMissing opts (completeViewCount s) \<longleftrightarrow>
               completeViewCount s < (if allowSingleView opts then 1 else 2)
               \<and> \<not> allowIncompleteOutput opts"
    by (auto simp: requiredViewsMissing_def)
  show "(\<exists>err. finish e opts views' s rigs = Inl err \<and> err \<noteq> SaveFailed) \<longleftrightarrow>
            (dom (unknownSensors s) \<noteq> {} \<and> \<not> allowIncompleteOutput opts)
            \<or> (completeViewCount s < (if allowSingleView opts then 1 else 2)
                \<and> \<not> allowIncompleteOutput opts)"
    unfolding req [symmetric] by (auto simp: finish_def)
  show "\<not> ((dom (unknownSensors s) \<noteq> {} \<and> \<not> allowIncompleteOutput opts)
               \<or> (completeViewCount s < (if allowSingleView opts then 1 else 2)
                   \<and> \<not> allowIncompleteOutput opts)) \<longrightarrow>
            finish e opts views' s rigs =
              (if Save e views' (intrinsics s) rigs then Inr (views', intrinsics s, rigs)
               else Inl SaveFailed)"
    unfolding req [symmetric] by (auto simp: finish_def)
qed

text \<open>
  Claim C8 as stated fails: with two complete views and no unknown sensor the run still
  ends with a failure when \<^verbatim>\<open>Save\<close> returns false (lines 639 to 642).
\<close>

theorem final_decision_counterexample:
  "cameraInit (exampleExt\<lparr>Save := \<lambda>views intrinsics rigs. False\<rparr>) exampleOptions exampleDatabase
     exampleCanonPair Map.empty Map.empty = Inl SaveFailed
   \<and> processViews (exampleExt\<lparr>Save := \<lambda>views intrinsics rigs. False\<rparr>) exampleOptions (Finite (- 1), Finite (- 1), Finite (- 1))
       exampleDatabase exampleCanonPair (initialShared Map.empty)
     = Inr ([(exampleCanonView ''/data/a.jpg'' ''EOS 5D'')\<lparr>intrinsicId := 0\<rparr>,
             (exampleCanonView ''/data/b.jpg'' ''EOS 5D'')\<lparr>intrinsicId := 0\<rparr>],
            exampleCanonState)
   \<and> createRigs (detectedRigs exampleCanonState) Map.empty = Inr Map.empty
   \<and> \<not> ((dom (unknownSensors exampleCanonState) \<noteq> {} \<and> \<not> allowIncompleteOutput exampleOptions)
         \<or> (completeViewCount exampleCanonState < (if allowSingleView exampleOptions then 1 else 2)
             \<and> \<not> allowIncompleteOutput exampleOptions))"
proof (intro conjI)
  have opts: "checkIntrinsicOptions exampleOptions = Inr (Finite (- 1), Finite (- 1), Finite (- 1))"
    by (simp add: checkIntrinsicOptions_def exampleOptions_def)
  show pass: "processViews (exampleExt\<lparr>Save := \<lambda>views intrinsics rigs. False\<rparr>) exampleOptions
       (Finite (- 1), Finite (- 1), Finite (- 1)) exampleDatabase exampleCanonPair (initialShared Map.empty)
     = Inr ([(exampleCanonView ''/data/a.jpg'' ''EOS 5D'')\<lparr>intrinsicId := 0\<rparr>,
             (exampleCanonView ''/data/b.jpg'' ''EOS 5D'')\<lparr>intrinsicId := 0\<rparr>],
            exampleCanonState)"
    by (simp only: processViews_Save processViews_exampleCanonPair)
  show rigs: "createRigs (detectedRigs exampleCanonState) Map.empty = Inr Map.empty"
    by (simp add: exampleCanonState_def initialShared_def)
  show "cameraInit (exampleExt\<lparr>Save := \<lambda>views intrinsics rigs. False\<rparr>) exampleOptions
     exampleDatabase exampleCanonPair Map.empty Map.empty = Inl SaveFailed"
  proof -
    have flags: "allowIncompleteOutput exampleOptions = False" "allowSingleView exampleOptions = False"
      by (simp_all add: exampleOptions_def)
    have ne: "exampleCanonPair \<noteq> []"
      by (simp add: exampleCanonPair_def)
    have st: "dom (unknownSensors exampleCanonState) = {}" "completeViewCount exampleCanonState = 2"
      by (simp_all add: exampleCanonState_def initialShared_def)
    show ?thesis
      by (simp add: cameraInit_def opts ne pass rigs finish_def requiredViewsMissing_def flags st)
  qed
  show "\<not> ((dom (unknownSensors exampleCanonState) \<noteq> {} \<and> \<not> allowIncompleteOutput exampleOptions)
         \<or> (completeViewCount exampleCanonState < (if allowSingleView exampleOptions then 1 else 2)
             \<and> \<not> allowIncompleteOutput exampleOptions))"
    by (simp add: exampleCanonState_def initialShared_def exampleOptions_def)
qed

theorem final_decision_witness:
  "cameraInit exampleExt exampleOptions exampleDatabase exampleCanonPair Map.empty Map.empty
     = Inr ([(exampleCanonView ''/data/a.jpg'' ''EOS 5D'')\<lparr>intrinsicId := 0\<rparr>,
             (exampleCanonView ''/data/b.jpg'' ''EOS 5D'')\<lparr>intrinsicId := 0\<rparr>],
            [0 \<mapsto> exampleCanonIntrinsic], Map.empty)"
proof -
  have opts: "checkIntrinsicOptions exampleOptions = Inr (Finite (- 1), Finite (- 1), Finite (- 1))"
    by (simp add: checkIntrinsicOptions_def exampleOptions_def)
  have views: "exampleCanonPair \<noteq> []"
    by (simp add: exampleCanonPair_def)
  have rigs: "createRigs (detectedRigs exampleCanonState) Map.empty = Inr Map.empty"
    by (simp add: exampleCanonState_def initialShared_def)
  have save: "Save exampleExt v i r" for v i r
    by (simp add: exampleExt_def)
  show ?thesis
    using final_decision [OF opts views processViews_exampleCanonPair rigs]
    by (simp add: save exampleCanonState_def initialShared_def exampleOptions_def)
qed

end
